theory Spec2Isabelle
  imports Main
begin

unbundle bit_operations_syntax

section \<open>Symbolic expressions\<close>

text \<open>
  The limit evaluator of \<^verbatim>\<open>sympy/series/limits.py\<close> works on SymPy expression
  trees. An expression is an atom or a class applied to a tuple of arguments
  (\<^verbatim>\<open>expr.func\<close>, \<^verbatim>\<open>expr.args\<close>). The singletons \<^verbatim>\<open>S.Zero\<close> and \<^verbatim>\<open>S.One\<close> are
  \<open>Integer 0\<close> and \<open>Integer 1\<close>; the tests \<^verbatim>\<open>x is S.Infinity\<close> of the source are
  equalities with the nullary constructors. An unevaluated limit is itself an expression
  whose arguments are \<^verbatim>\<open>(e, z, z0, dir)\<close>, the direction being stored as a \<^verbatim>\<open>Symbol\<close>.
  Floating point numbers are left out.
\<close>

datatype expr =
    Symbol string
  | Integer int
  | Infinity
  | NegativeInfinity
  | ComplexInfinity
  | NaN
  | Add "expr list"
  | Mul "expr list"
  | PowE expr expr
  | Abs expr
  | Function string "expr list"
  | Order expr "expr list"
  | AccumBounds expr expr
  | Limit expr expr expr expr
  | Other string "expr list"

text \<open>\<^verbatim>\<open>expr.args\<close>: the tuple of direct sub-expressions; atoms have none.\<close>

fun args :: "expr \<Rightarrow> expr list" where
  "args (Add xs) = xs"
| "args (Mul xs) = xs"
| "args (PowE b x) = [b, x]"
| "args (Abs a) = [a]"
| "args (Function f xs) = xs"
| "args (Order a ps) = a # ps"
| "args (AccumBounds a b) = [a, b]"
| "args (Limit e z z0 d) = [e, z, z0, d]"
| "args (Other c xs) = xs"
| "args _ = []"

text \<open>
  Modelled from the spec: \<^verbatim>\<open>Basic.has\<close> of the expression algebra, which is not part of
  the file; "has no occurrence of var at all" is read as: no node of the tree, visited in
  pre-order, equals one of the patterns.
\<close>

fun preorder_traversal :: "expr \<Rightarrow> expr list" where
  "preorder_traversal (Add xs) = Add xs # concat (map preorder_traversal xs)"
| "preorder_traversal (Mul xs) = Mul xs # concat (map preorder_traversal xs)"
| "preorder_traversal (PowE b x) = PowE b x # preorder_traversal b @ preorder_traversal x"
| "preorder_traversal (Abs a) = Abs a # preorder_traversal a"
| "preorder_traversal (Function f xs) = Function f xs # concat (map preorder_traversal xs)"
| "preorder_traversal (Order a ps) =
     Order a ps # preorder_traversal a @ concat (map preorder_traversal ps)"
| "preorder_traversal (AccumBounds a b) =
     AccumBounds a b # preorder_traversal a @ preorder_traversal b"
| "preorder_traversal (Limit e z z0 d) =
     Limit e z z0 d # preorder_traversal e @ preorder_traversal z
       @ preorder_traversal z0 @ preorder_traversal d"
| "preorder_traversal (Other c xs) = Other c xs # concat (map preorder_traversal xs)"
| "preorder_traversal a = [a]"

definition has :: "expr \<Rightarrow> expr list \<Rightarrow> bool" where
  "has e patterns = list_ex (\<lambda>s. s \<in> set patterns) (preorder_traversal e)"

text \<open>The structural class tests \<^verbatim>\<open>is_Mul\<close>, \<^verbatim>\<open>is_Add\<close>, \<^verbatim>\<open>is_Pow\<close>, \<^verbatim>\<open>is_Function\<close>,
  \<^verbatim>\<open>is_Order\<close> and the \<^verbatim>\<open>isinstance\<close> tests of the source.\<close>

fun is_Mul :: "expr \<Rightarrow> bool" where
  "is_Mul (Mul xs) = True"
| "is_Mul _ = False"

fun is_Add :: "expr \<Rightarrow> bool" where
  "is_Add (Add xs) = True"
| "is_Add _ = False"

fun is_Pow :: "expr \<Rightarrow> bool" where
  "is_Pow (PowE b x) = True"
| "is_Pow _ = False"

fun is_Function :: "expr \<Rightarrow> bool" where
  "is_Function (Function f xs) = True"
| "is_Function (Abs a) = True"
| "is_Function _ = False"

fun is_Order :: "expr \<Rightarrow> bool" where
  "is_Order (Order a ps) = True"
| "is_Order _ = False"

fun is_Abs :: "expr \<Rightarrow> bool" where
  "is_Abs (Abs a) = True"
| "is_Abs _ = False"

fun is_Limit :: "expr \<Rightarrow> bool" where
  "is_Limit (Limit e z z0 d) = True"
| "is_Limit _ = False"

fun is_AccumBounds :: "expr \<Rightarrow> bool" where
  "is_AccumBounds (AccumBounds a b) = True"
| "is_AccumBounds _ = False"

section \<open>Python values, exceptions and results\<close>

text \<open>
  The \<^verbatim>\<open>dir\<close> argument of \<^verbatim>\<open>Limit.__new__\<close> is an arbitrary Python object: a string, an
  expression (a \<^verbatim>\<open>Symbol\<close> or not), or an object of any other type, of which only the
  type matters.
\<close>

datatype pyval =
    PyStr string
  | PyExpr expr
  | PyObj string

datatype exn =
    NotImplementedError string
  | TypeError string
  | ValueError string
  | PoleError
  | PolynomialError
  | OtherError string

text \<open>
  A computation either runs out of fuel (\<open>None\<close>), raises (\<open>Some (Inl x)\<close>) or returns
  (\<open>Some (Inr v)\<close>). A call of an external collaborator raises or returns.
\<close>

type_synonym 'a res = "(exn + 'a) option"

abbreviation Return :: "'a \<Rightarrow> 'a res" where
  "Return v \<equiv> Some (Inr v)"

abbreviation Raise :: "exn \<Rightarrow> 'a res" where
  "Raise x \<equiv> Some (Inl x)"

definition rbind :: "'a res \<Rightarrow> ('a \<Rightarrow> 'b res) \<Rightarrow> 'b res" where
  "rbind m f = (case m of None \<Rightarrow> None | Some (Inl x) \<Rightarrow> Some (Inl x) | Some (Inr v) \<Rightarrow> f v)"

definition call :: "exn + 'a \<Rightarrow> 'a res" where
  "call r = Some r"

text \<open>The outcome of one step of the cascade of \<^verbatim>\<open>doit\<close>: the method has returned a
  value, or control goes on to the next step with the current expression \<^verbatim>\<open>e\<close>.\<close>

datatype step = Returned expr | Continue expr

definition andthen :: "step res \<Rightarrow> (expr \<Rightarrow> step res) \<Rightarrow> step res" where
  "andthen m f = rbind m (\<lambda>s. case s of Returned v \<Rightarrow> Return (Returned v) | Continue e \<Rightarrow> f e)"

section \<open>The external collaborators\<close>

text \<open>
  Everything the file imports from the rest of SymPy is a parameter: the expression
  algebra, the assumption queries (three-valued: \<open>Some True\<close>, \<open>Some False\<close>, \<open>None\<close>),
  series extraction, the Gruntz solver and the printers. A collaborator that is called
  inside a \<^verbatim>\<open>try\<close> block, or whose failure a claim depends on, returns \<open>exn + _\<close>.
\<close>

record ext =
  expr_doit :: "expr \<Rightarrow> exn + expr"
  Abs_eval :: "expr \<Rightarrow> expr"
  subs :: "expr \<Rightarrow> expr \<Rightarrow> expr \<Rightarrow> expr"
  add :: "expr \<Rightarrow> expr \<Rightarrow> expr"
  sub :: "expr \<Rightarrow> expr \<Rightarrow> expr"
  mul :: "expr \<Rightarrow> expr \<Rightarrow> expr"
  truediv :: "expr \<Rightarrow> expr \<Rightarrow> expr"
  pow :: "expr \<Rightarrow> expr \<Rightarrow> expr"
  neg :: "expr \<Rightarrow> expr"
  is_zero :: "expr \<Rightarrow> bool option"
  is_extended_real :: "expr \<Rightarrow> bool option"
  is_extended_positive :: "expr \<Rightarrow> bool option"
  is_real :: "expr \<Rightarrow> bool option"
  is_finite :: "expr \<Rightarrow> bool option"
  ext_gt_zero :: "expr \<Rightarrow> exn + bool option"
  ext_lt_zero :: "expr \<Rightarrow> exn + bool option"
  ext_int :: "expr \<Rightarrow> exn + int"
  is_meromorphic :: "expr \<Rightarrow> expr \<Rightarrow> expr \<Rightarrow> exn + bool"
  leadterm :: "expr \<Rightarrow> expr \<Rightarrow> int \<Rightarrow> exn + expr \<times> expr"
  sign :: "expr \<Rightarrow> expr"
  log :: "expr \<Rightarrow> expr"
  exp :: "expr \<Rightarrow> expr"
  rewrite_factorial_gamma :: "expr \<Rightarrow> expr"
  factor_terms :: "expr \<Rightarrow> expr"
  together :: "expr \<Rightarrow> expr"
  factor :: "expr \<Rightarrow> expr"
  simplify :: "expr \<Rightarrow> expr"
  ratsimp :: "expr \<Rightarrow> exn + expr"
  Dummy :: "string \<Rightarrow> expr"
  as_leading_term :: "expr \<Rightarrow> expr \<Rightarrow> exn + expr"
  gammasimp :: "expr \<Rightarrow> exn + expr"
  Order_new :: "expr \<Rightarrow> expr list \<Rightarrow> expr"
  gruntz :: "expr \<Rightarrow> expr \<Rightarrow> expr \<Rightarrow> pyval \<Rightarrow> exn + expr"
  func :: "expr \<Rightarrow> expr list \<Rightarrow> expr"
  Mul_new :: "expr list \<Rightarrow> expr"
  ext_str :: "expr \<Rightarrow> string"
  type_str :: "pyval \<Rightarrow> string"

text \<open>
  Modelled from the spec: \<^verbatim>\<open>str(x)\<close> of the printing system, which is not part of the
  file. The direction of a node is a \<^verbatim>\<open>Symbol\<close> and is read by its name; any other
  expression is printed by the external printer.
\<close>

definition str :: "ext \<Rightarrow> expr \<Rightarrow> string" where
  "str X a = (case a of Symbol s \<Rightarrow> s | _ \<Rightarrow> ext_str X a)"

text \<open>
  Modelled from the spec: the comparisons with zero and \<^verbatim>\<open>int(x)\<close> of the number
  classes, which are not part of the file (\<^verbatim>\<open>ex > 0\<close>, \<^verbatim>\<open>(sig < 0) == True\<close>,
  \<^verbatim>\<open>(sig > 0) == True\<close>, \<^verbatim>\<open>int(ex)\<close>). On an \<open>Integer\<close> they are the comparison and
  the value of the integer; on any other expression they are the external ones, where a
  comparison yields true, false or an unevaluated relation (\<open>None\<close>), whose truth value
  Python refuses with a \<^verbatim>\<open>TypeError\<close>.
\<close>

definition gt_zero :: "ext \<Rightarrow> expr \<Rightarrow> exn + bool option" where
  "gt_zero X a = (case a of Integer k \<Rightarrow> Inr (Some (0 < k)) | _ \<Rightarrow> ext_gt_zero X a)"

definition lt_zero :: "ext \<Rightarrow> expr \<Rightarrow> exn + bool option" where
  "lt_zero X a = (case a of Integer k \<Rightarrow> Inr (Some (k < 0)) | _ \<Rightarrow> ext_lt_zero X a)"

definition truth :: "exn + bool option \<Rightarrow> bool res" where
  "truth r = (case r of
       Inl x \<Rightarrow> Raise x
     | Inr None \<Rightarrow> Raise (TypeError ''cannot determine truth value of Relational'')
     | Inr (Some b) \<Rightarrow> Return b)"

definition is_True :: "exn + bool option \<Rightarrow> bool res" where
  "is_True r = (case r of Inl x \<Rightarrow> Raise x | Inr t \<Rightarrow> Return (t = Some True))"

definition to_int :: "ext \<Rightarrow> expr \<Rightarrow> exn + int" where
  "to_int X a = (case a of Integer k \<Rightarrow> Inr k | _ \<Rightarrow> ext_int X a)"

section \<open>The Limit node\<close>

text \<open>
  \<^verbatim>\<open>Limit.__new__(cls, e, z, z0, dir="+")\<close>. The three arguments \<^verbatim>\<open>e\<close>, \<^verbatim>\<open>z\<close>, \<^verbatim>\<open>z0\<close> are
  expressions already, on which \<^verbatim>\<open>sympify\<close> is the identity.
\<close>

definition Limit_new :: "ext \<Rightarrow> expr \<Rightarrow> expr \<Rightarrow> expr \<Rightarrow> pyval \<Rightarrow> exn + expr" where
  "Limit_new X e z z0 dir0 =
     (let dir = (if z0 = Infinity then PyStr ''-''
                 else if z0 = NegativeInfinity then PyStr ''+''
                 else dir0);
          checked = (\<lambda>d.
             if str X d \<notin> {''+'', ''-'', ''+-''}
             then Inl (ValueError (''direction must be one of '+', '-' or '+-', not '' @ str X d))
             else Inr (Limit e z z0 d))
      in case dir of
           PyStr s \<Rightarrow> checked (Symbol s)
         | PyExpr (Symbol s) \<Rightarrow> checked (Symbol s)
         | _ \<Rightarrow> Inl (TypeError
                 (''direction must be of type basestring or Symbol, not '' @ type_str X dir)))"

text \<open>
  \<^verbatim>\<open>expr.func(*newargs)\<close>: for a \<^verbatim>\<open>Limit\<close> node this is \<^verbatim>\<open>Limit.__new__\<close> above; for any
  other class it is the external constructor, which may evaluate. The argument tuples
  that reach it have the length of \<^verbatim>\<open>expr.args\<close>, so the arity failure never happens for
  a \<^verbatim>\<open>Limit\<close>.
\<close>

definition rebuild :: "ext \<Rightarrow> expr \<Rightarrow> expr list \<Rightarrow> exn + expr" where
  "rebuild X expr newargs =
     (case expr of
        Limit _ _ _ _ \<Rightarrow>
          (case newargs of
             [e, z, z0, d] \<Rightarrow> Limit_new X e z z0 (PyExpr d)
           | _ \<Rightarrow> Inl (TypeError ''__new__() got a wrong number of positional arguments''))
      | _ \<Rightarrow> Inr (func X expr newargs))"

section \<open>The evaluator, with its recursive calls as parameters\<close>

text \<open>
  \<^verbatim>\<open>limit\<close>, \<^verbatim>\<open>Limit.doit\<close> and \<^verbatim>\<open>heuristics\<close> call each other without any bound on the
  depth. Each function is first written with the two recursive entry points as parameters
  (\<open>lim\<close> for \<^verbatim>\<open>limit\<close>, \<open>heur\<close> for \<^verbatim>\<open>heuristics\<close>); the knot is tied by fuel in the next
  section.
\<close>

type_synonym limfun = "expr \<Rightarrow> expr \<Rightarrow> expr \<Rightarrow> pyval \<Rightarrow> expr res"

type_synonym heurfun = "expr \<Rightarrow> expr \<Rightarrow> expr \<Rightarrow> pyval \<Rightarrow> expr option res"

text \<open>Running a list of computations from left to right, as the generator expression
  of \<^verbatim>\<open>remove_abs\<close> does: the first one that fails decides.\<close>

primrec seq_res :: "'a res list \<Rightarrow> 'a list res" where
  "seq_res [] = Return []"
| "seq_res (m # ms) = rbind m (\<lambda>v. rbind (seq_res ms) (\<lambda>vs. Return (v # vs)))"

lemma size_member: "a \<in> set xs \<Longrightarrow> size (a::expr) \<le> size_list size xs"
  by (erule size_list_estimation') simp

lemma size_args: "a \<in> set (args e) \<Longrightarrow> size a < size e"
  by (cases e) (auto simp: less_Suc_eq_le dest: size_member intro: trans_le_add1)

text \<open>The closure \<^verbatim>\<open>remove_abs\<close> of \<^verbatim>\<open>doit\<close>; \<open>z\<close>, \<open>z0\<close>, \<open>dir\<close> are the variables it
  captures.\<close>

function remove_abs :: "ext \<Rightarrow> limfun \<Rightarrow> expr \<Rightarrow> expr \<Rightarrow> expr \<Rightarrow> expr \<Rightarrow> expr res" where
  "remove_abs X lim z z0 dir expr =
     (if args expr = [] then Return expr
      else
        rbind (seq_res (map (remove_abs X lim z z0 dir) (args expr))) (\<lambda>newargs.
        rbind (if newargs \<noteq> args expr then call (rebuild X expr newargs) else Return expr)
          (\<lambda>expr.
        case expr of
          Abs a \<Rightarrow>
            rbind (lim a z z0 (PyExpr dir)) (\<lambda>sig.
            rbind (if is_zero X sig = Some True
                   then lim (truediv X (Integer 1) a) z z0 (PyExpr dir)
                   else Return sig) (\<lambda>sig.
            if is_extended_real X sig = Some True then
              rbind (is_True (lt_zero X sig)) (\<lambda>negative.
              if negative then Return (neg X a)
              else
                rbind (is_True (gt_zero X sig)) (\<lambda>positive.
                if positive then Return a else Return expr))
            else Return expr))
        | _ \<Rightarrow> Return expr)))"
  by pat_completeness auto
termination
  by (relation "measure (\<lambda>(X, lim, z, z0, dir, expr). size expr)") (auto simp: size_args)

declare remove_abs.simps [simp del]

text \<open>\<^verbatim>\<open>cdir\<close>: the direction as a number.\<close>

definition cdir_of :: "ext \<Rightarrow> expr \<Rightarrow> int" where
  "cdir_of X dir = (if str X dir = ''+'' then 1 else if str X dir = ''-'' then - 1 else 0)"

text \<open>Lines 205 to 234: the trivial cases, then the resolution of absolute values.\<close>

definition trivial_abs_step ::
  "ext \<Rightarrow> limfun \<Rightarrow> expr \<Rightarrow> expr \<Rightarrow> expr \<Rightarrow> expr \<Rightarrow> step res" where
  "trivial_abs_step X lim e z z0 dir =
     (if e = z then Return (Returned z0)
      else if \<not> has e [z] then Return (Returned e)
      else rbind (remove_abs X lim z z0 dir e) (\<lambda>e. Return (Continue e)))"

text \<open>Lines 236 to 255: the leading term of a meromorphic expression. The \<^verbatim>\<open>except\<close>
  clause covers the call of \<^verbatim>\<open>leadterm\<close> only.\<close>

definition meromorphic_step :: "ext \<Rightarrow> expr \<Rightarrow> expr \<Rightarrow> expr \<Rightarrow> expr \<Rightarrow> step res" where
  "meromorphic_step X e z z0 dir =
     rbind (call (is_meromorphic X e z z0)) (\<lambda>m.
     if m then
       (let newe = (if Abs_eval X z0 = Infinity
                    then subs X e z (truediv X (Integer (- 1)) z)
                    else subs X e z (add X z z0))
        in case leadterm X newe z (cdir_of X dir) of
             Inl x \<Rightarrow>
               (case x of
                  ValueError _ \<Rightarrow> Return (Continue e)
                | NotImplementedError _ \<Rightarrow> Return (Continue e)
                | _ \<Rightarrow> Raise x)
           | Inr (coeff, ex) \<Rightarrow>
               rbind (truth (gt_zero X ex)) (\<lambda>positive.
               if positive then Return (Returned (Integer 0))
               else if ex = Integer 0 then Return (Returned coeff)
               else
                 rbind (if str X dir = ''+'' then Return True
                        else rbind (call (to_int X ex)) (\<lambda>k. Return (k AND 1 = 0)))
                   (\<lambda>same_sign.
                 if same_sign then Return (Returned (mul X Infinity (sign X coeff)))
                 else if str X dir = ''-''
                 then Return (Returned (mul X NegativeInfinity (sign X coeff)))
                 else Return (Returned ComplexInfinity))))
     else Return (Continue e))"

text \<open>Lines 261 and 262: factorials become gamma functions at a positive point.\<close>

definition rewrite_step :: "ext \<Rightarrow> expr \<Rightarrow> expr \<Rightarrow> expr" where
  "rewrite_step X e z0 =
     (if is_extended_positive X z0 = Some True then rewrite_factorial_gamma X e else e)"

text \<open>Lines 264 to 280: a product at an infinite point. The \<^verbatim>\<open>try\<close> block contains the
  recursive call of \<^verbatim>\<open>limit\<close>, so the three exception classes are caught from it too;
  \<^verbatim>\<open>e\<close> stays factored afterwards.\<close>

definition mul_inf_step ::
  "ext \<Rightarrow> limfun \<Rightarrow> expr \<Rightarrow> expr \<Rightarrow> expr \<Rightarrow> expr \<Rightarrow> step res" where
  "mul_inf_step X lim self e0 z z0 =
     (if is_Mul e0 \<and> Abs_eval X z0 = Infinity then
        (let e = factor_terms X e0;
             u = Dummy X ''u'';
             inve = (if z0 = NegativeInfinity
                     then subs X e z (truediv X (Integer (- 1)) u)
                     else subs X e z (truediv X (Integer 1) u));
             body =
               rbind (call (as_leading_term X inve u)) (\<lambda>t.
               rbind (call (gammasimp X t)) (\<lambda>f.
               rbind (call (is_meromorphic X f u (Integer 0))) (\<lambda>m.
               if m then
                 rbind (lim f u (Integer 0) (PyStr ''+'')) (\<lambda>r.
                 if is_Limit r then Return (Returned self) else Return (Returned r))
               else Return (Continue e))))
         in case body of
              Some (Inl x) \<Rightarrow>
                (case x of
                   ValueError _ \<Rightarrow> Return (Continue e)
                 | NotImplementedError _ \<Rightarrow> Return (Continue e)
                 | PoleError \<Rightarrow> Return (Continue e)
                 | _ \<Rightarrow> Raise x)
            | other \<Rightarrow> other)
      else Return (Continue e0))"

text \<open>Lines 282 and 283: an order term. The recursive call takes the default
  direction.\<close>

definition order_step :: "ext \<Rightarrow> limfun \<Rightarrow> expr \<Rightarrow> expr \<Rightarrow> expr \<Rightarrow> step res" where
  "order_step X lim e z z0 =
     (case e of
        Order a ps \<Rightarrow>
          rbind (lim a z z0 (PyStr ''+'')) (\<lambda>v. Return (Returned (Order_new X v ps)))
      | _ \<Rightarrow> Return (Continue e))"

text \<open>Lines 285 to 318: a power. All recursive calls take the default direction.\<close>

definition pow_step ::
  "ext \<Rightarrow> limfun \<Rightarrow> expr \<Rightarrow> expr \<Rightarrow> expr \<Rightarrow> expr \<Rightarrow> step res" where
  "pow_step X lim self e z z0 =
     (case e of
        PowE b1 e1 \<Rightarrow>
          if has e [Infinity, NegativeInfinity, ComplexInfinity, NaN]
          then Return (Returned self)
          else
            (let f1 = mul X e1 (log X b1) in
             rbind (call (is_meromorphic X f1 z z0)) (\<lambda>m.
             if m then
               rbind (lim f1 z z0 (PyStr ''+'')) (\<lambda>res. Return (Returned (exp X res)))
             else
               rbind (lim e1 z z0 (PyStr ''+'')) (\<lambda>ex_lim.
               rbind (lim b1 z z0 (PyStr ''+'')) (\<lambda>base_lim.
               if base_lim = Integer 1 \<and> ex_lim \<in> {Infinity, NegativeInfinity} then
                 rbind (lim (mul X e1 (sub X b1 (Integer 1))) z z0 (PyStr ''+''))
                   (\<lambda>res. Return (Returned (exp X res)))
               else if base_lim = Integer 1 \<and> is_real X ex_lim = Some True then
                 Return (Returned (Integer 1))
               else if base_lim \<in> {Integer 0, Infinity, NegativeInfinity}
                       \<and> ex_lim = Integer 0 then
                 rbind (lim f1 z z0 (PyStr ''+'')) (\<lambda>res. Return (Returned (exp X res)))
               else if base_lim = NegativeInfinity \<and> ex_lim = NegativeInfinity then
                 Return (Returned (Integer 0))
               else if base_lim = NegativeInfinity \<and> ex_lim = Infinity then
                 Return (Returned ComplexInfinity)
               else if \<not> is_AccumBounds base_lim \<and> \<not> is_AccumBounds ex_lim then
                 (let res = pow X base_lim ex_lim in
                  if res \<noteq> ComplexInfinity \<and> \<not> is_Pow res then Return (Returned res)
                  else Return (Continue e))
               else Return (Continue e)))))
      | _ \<Rightarrow> Return (Continue e))"

text \<open>The steps before the general fallback, in the order of the source. Each prefix
  of the cascade has a name, to say with which expression a later step is entered.\<close>

definition upto_meromorphic ::
  "ext \<Rightarrow> limfun \<Rightarrow> expr \<Rightarrow> expr \<Rightarrow> expr \<Rightarrow> expr \<Rightarrow> step res" where
  "upto_meromorphic X lim e z z0 dir =
     andthen (trivial_abs_step X lim e z z0 dir) (\<lambda>e. meromorphic_step X e z z0 dir)"

definition upto_mul ::
  "ext \<Rightarrow> limfun \<Rightarrow> expr \<Rightarrow> expr \<Rightarrow> expr \<Rightarrow> expr \<Rightarrow> expr \<Rightarrow> step res" where
  "upto_mul X lim self e z z0 dir =
     andthen (upto_meromorphic X lim e z z0 dir)
       (\<lambda>e. mul_inf_step X lim self (rewrite_step X e z0) z z0)"

definition upto_order ::
  "ext \<Rightarrow> limfun \<Rightarrow> expr \<Rightarrow> expr \<Rightarrow> expr \<Rightarrow> expr \<Rightarrow> expr \<Rightarrow> step res" where
  "upto_order X lim self e z z0 dir =
     andthen (upto_mul X lim self e z z0 dir) (\<lambda>e. order_step X lim e z z0)"

definition fast_paths ::
  "ext \<Rightarrow> limfun \<Rightarrow> expr \<Rightarrow> expr \<Rightarrow> expr \<Rightarrow> expr \<Rightarrow> expr \<Rightarrow> step res" where
  "fast_paths X lim self e z z0 dir =
     andthen (upto_order X lim self e z z0 dir) (\<lambda>e. pow_step X lim self e z z0)"

text \<open>
  Lines 320 to 341: the Gruntz solver, then the heuristics. \<open>handler l x\<close> is the
  \<^verbatim>\<open>except (PoleError, ValueError)\<close> clause, entered with exception \<open>x\<close> when the local
  variable \<^verbatim>\<open>l\<close> has the value \<open>l\<close> (\<open>None\<close> until the left-hand call has returned).
\<close>

definition nonexistence_msg :: "ext \<Rightarrow> expr \<Rightarrow> expr \<Rightarrow> string" where
  "nonexistence_msg X l r =
     ''The limit does not exist since left hand limit = '' @ str X l
       @ '' and right hand limit = '' @ str X r"

definition general_fallback ::
  "ext \<Rightarrow> heurfun \<Rightarrow> expr \<Rightarrow> expr \<Rightarrow> expr \<Rightarrow> expr \<Rightarrow> expr \<Rightarrow> expr res" where
  "general_fallback X heur self e z z0 dir =
     (let handler = (\<lambda>l x.
            case x of
              PoleError \<Rightarrow>
                if l \<noteq> None then Raise x
                else rbind (heur e z z0 (PyExpr dir))
                       (\<lambda>r. case r of None \<Rightarrow> Return self | Some v \<Rightarrow> Return v)
            | ValueError _ \<Rightarrow>
                if l \<noteq> None then Raise x
                else rbind (heur e z z0 (PyExpr dir))
                       (\<lambda>r. case r of None \<Rightarrow> Return self | Some v \<Rightarrow> Return v)
            | _ \<Rightarrow> Raise x)
      in
      if str X dir = ''+-'' then
        (case gruntz X e z z0 (PyStr ''+'') of
           Inl x \<Rightarrow> handler None x
         | Inr r \<Rightarrow>
             (case gruntz X e z z0 (PyStr ''-'') of
                Inl x \<Rightarrow> handler None x
              | Inr l \<Rightarrow>
                  if l \<noteq> r then handler (Some l) (ValueError (nonexistence_msg X l r))
                  else if r = NaN \<or> l = NaN then handler (Some l) PoleError
                  else Return r))
      else
        (case gruntz X e z z0 (PyExpr dir) of
           Inl x \<Rightarrow> handler None x
         | Inr r \<Rightarrow> if r = NaN then handler None PoleError else Return r))"

text \<open>\<^verbatim>\<open>Limit.doit(self, **hints)\<close>; \<open>deep\<close> is \<^verbatim>\<open>hints.get('deep', True)\<close>. The tuple
  assignment \<^verbatim>\<open>e, z, z0, dir = self.args\<close> fails on any other number of arguments, which
  a \<^verbatim>\<open>Limit\<close> node never has.\<close>

definition deep_step :: "ext \<Rightarrow> bool \<Rightarrow> expr \<Rightarrow> expr \<Rightarrow> expr \<Rightarrow> (expr \<times> expr \<times> expr) res" where
  "deep_step X deep e z z0 =
     (if deep then
        rbind (call (expr_doit X e)) (\<lambda>e.
        rbind (call (expr_doit X z)) (\<lambda>z.
        rbind (call (expr_doit X z0)) (\<lambda>z0. Return (e, z, z0))))
      else Return (e, z, z0))"

definition doit_with :: "ext \<Rightarrow> limfun \<Rightarrow> heurfun \<Rightarrow> bool \<Rightarrow> expr \<Rightarrow> expr res" where
  "doit_with X lim heur deep self =
     (case args self of
        [e, z, z0, dir] \<Rightarrow>
          if z0 = ComplexInfinity
          then Raise (NotImplementedError ''Limits at complex infinity are not implemented'')
          else
            rbind (deep_step X deep e z z0) (\<lambda>(e, z, z0).
            rbind (fast_paths X lim self e z z0 dir) (\<lambda>s.
            case s of
              Returned v \<Rightarrow> Return v
            | Continue e \<Rightarrow> general_fallback X heur self e z z0 dir))
      | _ \<Rightarrow> Raise (ValueError ''wrong number of values to unpack (expected 4)''))"

text \<open>\<^verbatim>\<open>limit(e, z, z0, dir="+")\<close>: construct the node, evaluate it with
  \<^verbatim>\<open>deep=False\<close>.\<close>

definition limit_with :: "ext \<Rightarrow> limfun \<Rightarrow> heurfun \<Rightarrow> limfun" where
  "limit_with X lim heur e z z0 dir =
     (case Limit_new X e z z0 dir of
        Inl x \<Rightarrow> Raise x
      | Inr self \<Rightarrow> doit_with X lim heur False self)"

text \<open>
  \<^verbatim>\<open>heuristics(e, z, z0, dir)\<close>; Python's \<^verbatim>\<open>None\<close> is \<open>None\<close>. The loop over \<^verbatim>\<open>e.args\<close>
  either leaves the function (\<open>Exit\<close>) or ends with the list \<^verbatim>\<open>r\<close> (\<open>Collected\<close>).
\<close>

datatype loop_out = Exit "expr option" | Collected "expr list"

fun heur_loop ::
  "ext \<Rightarrow> limfun \<Rightarrow> heurfun \<Rightarrow> expr \<Rightarrow> expr \<Rightarrow> expr \<Rightarrow> pyval \<Rightarrow> expr list \<Rightarrow> expr list
     \<Rightarrow> loop_out res" where
  "heur_loop X lim heur e z z0 dir [] r = Return (Collected r)"
| "heur_loop X lim heur e z z0 dir (a # rest) r =
     rbind (lim a z z0 dir) (\<lambda>l.
     if has l [Infinity] \<and> is_finite X l = None then
       (if is_Add e then
          (let m = factor_terms X e;
               m = (if \<not> is_Mul m then together X m else m);
               m = (if \<not> is_Mul m then factor X e else m)
           in if is_Mul m then rbind (heur m z z0 dir) (\<lambda>v. Return (Exit v))
              else Return (Exit None))
        else Return (Exit None))
     else if is_Limit l then Return (Exit None)
     else if l = NaN then Return (Exit None)
     else heur_loop X lim heur e z z0 dir rest (r @ [l]))"

definition heur_combine ::
  "ext \<Rightarrow> limfun \<Rightarrow> expr \<Rightarrow> expr \<Rightarrow> expr \<Rightarrow> pyval \<Rightarrow> expr list \<Rightarrow> expr option res" where
  "heur_combine X lim e z z0 dir r =
     (if r \<noteq> [] then
        rbind (call (rebuild X e r)) (\<lambda>rv.
        rbind
          (if rv = NaN \<and> is_Mul e \<and> list_ex is_AccumBounds r then
             (let r2 = filter is_AccumBounds r;
                  e2 = map fst (filter (\<lambda>(a, rr). \<not> is_AccumBounds rr) (zip (args e) r))
              in if length e2 > 0 then
                   (let e3 = simplify X (Mul_new X e2) in
                    rbind (lim e3 z z0 dir) (\<lambda>l. Return (mul X l (Mul_new X r2))))
                 else Return rv)
           else Return rv) (\<lambda>rv.
        if rv = NaN then
          (case ratsimp X e of
             Inl x \<Rightarrow> (case x of PolynomialError \<Rightarrow> Return None | _ \<Rightarrow> Raise x)
           | Inr rat_e \<Rightarrow>
               if rat_e = NaN \<or> rat_e = e then Return None
               else rbind (lim rat_e z z0 dir) (\<lambda>v. Return (Some v)))
        else Return (Some rv)))
      else Return None)"

definition heuristics_with :: "ext \<Rightarrow> limfun \<Rightarrow> heurfun \<Rightarrow> heurfun" where
  "heuristics_with X lim heur e z z0 dir =
     (if Abs_eval X z0 = Infinity then
        rbind (lim (subs X e z (truediv X (Integer 1) z)) z (Integer 0)
                 (PyStr (if z0 = Infinity then ''+'' else ''-'')))
          (\<lambda>rv. if is_Limit rv then Return None else Return (Some rv))
      else if is_Mul e \<or> is_Add e \<or> is_Pow e \<or> is_Function e then
        rbind (heur_loop X lim heur e z z0 dir (args e) []) (\<lambda>out.
        case out of
          Exit v \<Rightarrow> Return v
        | Collected r \<Rightarrow> heur_combine X lim e z z0 dir r)
      else Return None)"

section \<open>Tying the knot with fuel\<close>

text \<open>
  The fuel bounds the depth of nested calls of \<^verbatim>\<open>limit\<close> and \<^verbatim>\<open>heuristics\<close>; a call at
  depth zero does not return. \<open>doit X n\<close> is the method run where \<open>n\<close> levels of nested
  calls are left.
\<close>

primrec run :: "ext \<Rightarrow> nat \<Rightarrow> limfun \<times> heurfun" where
  "run X 0 = ((\<lambda>e z z0 dir. None), (\<lambda>e z z0 dir. None))"
| "run X (Suc n) =
     (limit_with X (fst (run X n)) (snd (run X n)),
      heuristics_with X (fst (run X n)) (snd (run X n)))"

definition limit :: "ext \<Rightarrow> nat \<Rightarrow> limfun" where
  "limit X n = fst (run X n)"

definition heuristics :: "ext \<Rightarrow> nat \<Rightarrow> heurfun" where
  "heuristics X n = snd (run X n)"

definition doit :: "ext \<Rightarrow> nat \<Rightarrow> bool \<Rightarrow> expr \<Rightarrow> expr res" where
  "doit X n deep self = doit_with X (limit X n) (heuristics X n) deep self"

text \<open>
  The order in which a computation that has run out of fuel lies below every outcome,
  and an outcome lies below itself only; it is lifted to the two recursive entry points.
\<close>

definition le_res :: "'a res \<Rightarrow> 'a res \<Rightarrow> bool" where
  "le_res a b \<longleftrightarrow> a = None \<or> a = b"

definition le_fun ::
  "(expr \<Rightarrow> expr \<Rightarrow> expr \<Rightarrow> pyval \<Rightarrow> 'a res) \<Rightarrow> (expr \<Rightarrow> expr \<Rightarrow> expr \<Rightarrow> pyval \<Rightarrow> 'a res)
     \<Rightarrow> bool" where
  "le_fun f g \<longleftrightarrow> (\<forall>e z z0 d. le_res (f e z z0 d) (g e z z0 d))"

section \<open>A small concrete environment\<close>

text \<open>
  To run the model on concrete requests the collaborators are instantiated with a small
  algebra: structural substitution, arithmetic that only folds the cases used below, the
  leading term of a single power of the variable, and a solver that knows the one-sided
  limits of \<open>sign\<close> and answers not-a-number on the function \<open>osc\<close>.
\<close>

fun subst :: "expr \<Rightarrow> expr \<Rightarrow> expr \<Rightarrow> expr" where
  "subst (Add xs) old new =
     (if Add xs = old then new else Add (map (\<lambda>a. subst a old new) xs))"
| "subst (Mul xs) old new =
     (if Mul xs = old then new else Mul (map (\<lambda>a. subst a old new) xs))"
| "subst (PowE b x) old new =
     (if PowE b x = old then new else PowE (subst b old new) (subst x old new))"
| "subst (Abs a) old new = (if Abs a = old then new else Abs (subst a old new))"
| "subst (Function f xs) old new =
     (if Function f xs = old then new else Function f (map (\<lambda>a. subst a old new) xs))"
| "subst (Other c xs) old new =
     (if Other c xs = old then new else Other c (map (\<lambda>a. subst a old new) xs))"
| "subst a old new = (if a = old then new else a)"

fun rational_in :: "expr \<Rightarrow> bool" where
  "rational_in (Symbol s) = True"
| "rational_in (Integer k) = True"
| "rational_in (PowE b (Integer k)) = rational_in b"
| "rational_in (Add xs) = list_all rational_in xs"
| "rational_in (Mul xs) = list_all rational_in xs"
| "rational_in _ = False"

fun sample_leadterm :: "expr \<Rightarrow> expr \<Rightarrow> exn + expr \<times> expr" where
  "sample_leadterm (PowE (Symbol s) (Integer k)) z =
     (if Symbol s = z then Inr (Integer 1, Integer k)
      else Inl (NotImplementedError ''leadterm''))"
| "sample_leadterm (Symbol s) z =
     (if Symbol s = z then Inr (Integer 1, Integer 1) else Inr (Symbol s, Integer 0))"
| "sample_leadterm (Integer k) z =
     (if k = 0 then Inl (ValueError ''leadterm'') else Inr (Integer k, Integer 0))"
| "sample_leadterm (Add [Integer c, Symbol s]) z =
     (if Symbol s = z \<and> c \<noteq> 0 then Inr (Integer c, Integer 0)
      else Inl (NotImplementedError ''leadterm''))"
| "sample_leadterm _ z = Inl (NotImplementedError ''leadterm'')"

fun sample_mul :: "expr \<Rightarrow> expr \<Rightarrow> expr" where
  "sample_mul Infinity (Integer k) =
     (if 0 < k then Infinity else if k < 0 then NegativeInfinity else NaN)"
| "sample_mul NegativeInfinity (Integer k) =
     (if 0 < k then NegativeInfinity else if k < 0 then Infinity else NaN)"
| "sample_mul a b = Mul [a, b]"

fun sample_func :: "expr \<Rightarrow> expr list \<Rightarrow> expr" where
  "sample_func (Add xs) r = Add r"
| "sample_func (Mul xs) r = Mul r"
| "sample_func (PowE b x) [b', x'] = PowE b' x'"
| "sample_func (Abs a) [a'] = Abs a'"
| "sample_func (Function f xs) r = Function f r"
| "sample_func (AccumBounds a b) [a', b'] = AccumBounds a' b'"
| "sample_func (Order a ps) (a' # ps') = Order a' ps'"
| "sample_func (Other c xs) r = Other c r"
| "sample_func e r = e"

fun sample_gruntz :: "expr \<Rightarrow> expr \<Rightarrow> expr \<Rightarrow> pyval \<Rightarrow> exn + expr" where
  "sample_gruntz (Function f xs) z z0 dir =
     (if f = ''sign'' \<and> xs = [z] \<and> z0 = Integer 0 then
        (if dir = PyStr ''-'' \<or> dir = PyExpr (Symbol ''-'') then Inr (Integer (- 1))
         else Inr (Integer 1))
      else if f = ''osc'' then Inr NaN
      else Inl PoleError)"
| "sample_gruntz e z z0 dir = Inl PoleError"

fun sample_str :: "expr \<Rightarrow> string" where
  "sample_str (Integer k) =
     (if k = 0 then ''0'' else if k = 1 then ''1'' else if k = - 1 then ''-1'' else ''Integer'')"
| "sample_str Infinity = ''oo''"
| "sample_str NegativeInfinity = ''-oo''"
| "sample_str ComplexInfinity = ''zoo''"
| "sample_str NaN = ''nan''"
| "sample_str (Symbol s) = s"
| "sample_str e = ''expr''"

fun sample_type_str :: "pyval \<Rightarrow> string" where
  "sample_type_str (PyStr s) = ''<class 'str'>''"
| "sample_type_str (PyExpr a) = ''<class 'sympy.core.expr.Expr'>''"
| "sample_type_str (PyObj t) = t"

fun sample_sign :: "expr \<Rightarrow> expr" where
  "sample_sign (Integer k) = Integer (if 0 < k then 1 else if k < 0 then - 1 else 0)"
| "sample_sign a = Function ''sign'' [a]"

fun sample_abs :: "expr \<Rightarrow> expr" where
  "sample_abs Infinity = Infinity"
| "sample_abs NegativeInfinity = Infinity"
| "sample_abs ComplexInfinity = Infinity"
| "sample_abs (Integer k) = Integer \<bar>k\<bar>"
| "sample_abs a = Abs a"

fun sample_real :: "expr \<Rightarrow> bool option" where
  "sample_real (Integer k) = Some True"
| "sample_real Infinity = Some False"
| "sample_real NegativeInfinity = Some False"
| "sample_real ComplexInfinity = Some False"
| "sample_real a = None"

fun sample_extended_real :: "expr \<Rightarrow> bool option" where
  "sample_extended_real (Integer k) = Some True"
| "sample_extended_real Infinity = Some True"
| "sample_extended_real NegativeInfinity = Some True"
| "sample_extended_real ComplexInfinity = Some False"
| "sample_extended_real a = None"

fun sample_positive :: "expr \<Rightarrow> bool option" where
  "sample_positive (Integer k) = Some (0 < k)"
| "sample_positive Infinity = Some True"
| "sample_positive NegativeInfinity = Some False"
| "sample_positive a = None"

fun sample_zero :: "expr \<Rightarrow> bool option" where
  "sample_zero (Integer k) = Some (k = 0)"
| "sample_zero Infinity = Some False"
| "sample_zero NegativeInfinity = Some False"
| "sample_zero a = None"

fun sample_gt :: "expr \<Rightarrow> exn + bool option" where
  "sample_gt Infinity = Inr (Some True)"
| "sample_gt NegativeInfinity = Inr (Some False)"
| "sample_gt ComplexInfinity = Inl (TypeError ''Invalid comparison of non-real zoo'')"
| "sample_gt a = Inr None"

fun sample_lt :: "expr \<Rightarrow> exn + bool option" where
  "sample_lt Infinity = Inr (Some False)"
| "sample_lt NegativeInfinity = Inr (Some True)"
| "sample_lt ComplexInfinity = Inl (TypeError ''Invalid comparison of non-real zoo'')"
| "sample_lt a = Inr None"

definition sample_ext :: ext where
  "sample_ext = \<lparr>
     expr_doit = Inr,
     Abs_eval = sample_abs,
     subs = (\<lambda>e old new. subst e old new),
     add = (\<lambda>a b. if b = Integer 0 then a else if a = Integer 0 then b else Add [a, b]),
     sub = (\<lambda>a b. if b = Integer 0 then a else Add [a, Mul [Integer (- 1), b]]),
     mul = sample_mul,
     truediv = (\<lambda>a b. if a = Integer 1 then PowE b (Integer (- 1))
                       else Mul [a, PowE b (Integer (- 1))]),
     pow = PowE,
     neg = (\<lambda>a. Mul [Integer (- 1), a]),
     is_zero = sample_zero,
     is_extended_real = sample_extended_real,
     is_extended_positive = sample_positive,
     is_real = sample_real,
     is_finite = sample_real,
     ext_gt_zero = sample_gt,
     ext_lt_zero = sample_lt,
     ext_int = (\<lambda>a. Inl (TypeError ''cannot convert to int'')),
     is_meromorphic = (\<lambda>e z z0. Inr (rational_in e)),
     leadterm = (\<lambda>e z cdir. sample_leadterm e z),
     sign = sample_sign,
     log = (\<lambda>a. Function ''log'' [a]),
     exp = (\<lambda>a. if a = Integer 0 then Integer 1 else Function ''exp'' [a]),
     rewrite_factorial_gamma = (\<lambda>e. e),
     factor_terms = (\<lambda>e. e),
     together = (\<lambda>e. e),
     factor = (\<lambda>e. e),
     simplify = (\<lambda>e. e),
     ratsimp = Inr,
     Dummy = (\<lambda>s. Symbol (''_'' @ s)),
     as_leading_term = (\<lambda>e u. Inr e),
     gammasimp = Inr,
     Order_new = Order,
     gruntz = sample_gruntz,
     func = sample_func,
     Mul_new = Mul,
     ext_str = sample_str,
     type_str = sample_type_str
   \<rparr>"

text \<open>The text of the \<^verbatim>\<open>ValueError\<close> of \<^verbatim>\<open>Limit.__new__\<close> for the direction named \<open>s\<close>,
  and the text of the \<^verbatim>\<open>NotImplementedError\<close> of \<^verbatim>\<open>doit\<close>.\<close>

definition invalid_direction_msg :: "string \<Rightarrow> string" where
  "invalid_direction_msg s = ''direction must be one of '+', '-' or '+-', not '' @ s"

definition unsupported_msg :: string where
  "unsupported_msg = ''Limits at complex infinity are not implemented''"

section \<open>Basic facts\<close>

lemma rbind_simps [simp]:
  "rbind None f = None"
  "rbind (Raise x) f = Raise x"
  "rbind (Return v) f = f v"
  by (simp_all add: rbind_def)

lemma andthen_simps [simp]:
  "andthen None f = None"
  "andthen (Raise x) f = Raise x"
  "andthen (Return (Returned v)) f = Return (Returned v)"
  "andthen (Return (Continue e)) f = f e"
  by (simp_all add: andthen_def)

lemma call_simp [simp]: "call r = Some r"
  by (simp add: call_def)

lemma limit_0: "limit X 0 e z z0 dir = None"
  by (simp add: limit_def)

lemma limit_Suc:
  "limit X (Suc n) e z z0 dir =
     (case Limit_new X e z z0 dir of
        Inl x \<Rightarrow> Raise x
      | Inr self \<Rightarrow> doit X n False self)"
  by (simp add: limit_def heuristics_def doit_def limit_with_def split: sum.splits)

lemma heuristics_0: "heuristics X 0 e z z0 dir = None"
  by (simp add: heuristics_def)

lemma heuristics_Suc:
  "heuristics X (Suc n) = heuristics_with X (limit X n) (heuristics X n)"
  by (simp add: limit_def heuristics_def)

lemma has_self: "has e [e]"
  by (cases e) (simp_all add: has_def)

lemma Limit_new_forced:
  "Limit_new X e z Infinity dir = Inr (Limit e z Infinity (Symbol ''-''))"
  "Limit_new X e z NegativeInfinity dir = Inr (Limit e z NegativeInfinity (Symbol ''+''))"
  by (simp_all add: Limit_new_def str_def)

lemma Limit_new_str:
  "z0 \<noteq> Infinity \<Longrightarrow> z0 \<noteq> NegativeInfinity \<Longrightarrow>
   Limit_new X e z z0 (PyStr s) =
     (if s \<in> {''+'', ''-'', ''+-''} then Inr (Limit e z z0 (Symbol s))
      else Inl (ValueError (''direction must be one of '+', '-' or '+-', not '' @ s)))"
  by (simp add: Limit_new_def str_def)

lemma Limit_new_Symbol:
  "z0 \<noteq> Infinity \<Longrightarrow> z0 \<noteq> NegativeInfinity \<Longrightarrow>
   Limit_new X e z z0 (PyExpr (Symbol s)) = Limit_new X e z z0 (PyStr s)"
  by (simp add: Limit_new_def)

lemma Limit_new_node:
  assumes "Limit_new X e z z0 dir = Inr node"
  shows "\<exists>d. node = Limit e z z0 (Symbol d) \<and> d \<in> {''+'', ''-'', ''+-''}"
  using assms
  by (auto simp: Limit_new_def str_def Let_def split: if_splits pyval.splits expr.splits)

lemma doit_complex_infinity:
  "doit_with X lim heur deep (Limit e z ComplexInfinity d)
     = Raise (NotImplementedError unsupported_msg)"
  by (simp add: doit_with_def unsupported_msg_def)

lemma doit_trivial:
  assumes "z0 \<noteq> ComplexInfinity" and "deep_step X deep e z z0 = Return (e', z', z0')"
  shows "e' = z' \<Longrightarrow> doit_with X lim heur deep (Limit e z z0 d) = Return z0'"
    and "\<not> has e' [z'] \<Longrightarrow> doit_with X lim heur deep (Limit e z z0 d) = Return e'"
proof -
  show "doit_with X lim heur deep (Limit e z z0 d) = Return z0'" if "e' = z'"
    using assms that
    by (simp add: doit_with_def fast_paths_def upto_order_def upto_mul_def
        upto_meromorphic_def trivial_abs_step_def)
  show "doit_with X lim heur deep (Limit e z z0 d) = Return e'" if "\<not> has e' [z']"
  proof -
    from that have "e' \<noteq> z'" using has_self by auto
    with assms that show ?thesis
      by (simp add: doit_with_def fast_paths_def upto_order_def upto_mul_def
          upto_meromorphic_def trivial_abs_step_def)
  qed
qed

section \<open>More fuel, same result\<close>

text \<open>
  Every function of the evaluator is monotone in its two recursive entry points, so an
  outcome (a value or an exception) reached with some fuel is the outcome with any
  larger fuel: the fuel only decides whether the model answers, never what it answers.
\<close>

lemma le_res_refl [simp, intro]: "le_res a a"
  by (simp add: le_res_def)

lemma le_res_None [simp, intro]: "le_res None b"
  by (simp add: le_res_def)

lemma le_funD: "le_fun f g \<Longrightarrow> le_res (f e z z0 d) (g e z z0 d)"
  by (simp add: le_fun_def)

lemma le_res_rbind:
  "le_res m m' \<Longrightarrow> (\<And>v. le_res (f v) (f' v)) \<Longrightarrow> le_res (rbind m f) (rbind m' f')"
  by (auto simp: le_res_def rbind_def split: option.splits sum.splits)

lemma le_res_andthen:
  "le_res m m' \<Longrightarrow> (\<And>v. le_res (f v) (f' v)) \<Longrightarrow> le_res (andthen m f) (andthen m' f')"
  unfolding andthen_def by (rule le_res_rbind) (auto split: step.splits)

lemma le_res_if:
  "(c \<Longrightarrow> le_res a a') \<Longrightarrow> (\<not> c \<Longrightarrow> le_res b b') \<Longrightarrow>
   le_res (if c then a else b) (if c then a' else b')"
  by simp

lemma le_res_seq:
  "list_all2 le_res ms ms' \<Longrightarrow> le_res (seq_res ms) (seq_res ms')"
  by (induction rule: list_all2_induct) (auto intro!: le_res_rbind)

lemma remove_abs_mono:
  assumes "le_fun lim lim'"
  shows "le_res (remove_abs X lim z z0 dir e) (remove_abs X lim' z z0 dir e)"
proof (induction e rule: measure_induct_rule [where f = size])
  case (less e)
  have args: "list_all2 le_res (map (remove_abs X lim z z0 dir) (args e))
                (map (remove_abs X lim' z z0 dir) (args e))"
    by (simp add: list_all2_map1 list_all2_map2 list_all2_same less size_args)
  show ?case
    apply (subst remove_abs.simps [of X lim])
    apply (subst remove_abs.simps [of X lim'])
    apply (rule le_res_if)
     apply simp
    apply (rule le_res_rbind [OF le_res_seq [OF args]])
    apply (rule le_res_rbind)
     apply simp
    apply (auto split: expr.splits intro!: le_res_rbind le_funD [OF assms])
    done
qed

lemma trivial_abs_step_mono:
  "le_fun lim lim' \<Longrightarrow>
   le_res (trivial_abs_step X lim e z z0 dir) (trivial_abs_step X lim' e z z0 dir)"
  by (auto simp: trivial_abs_step_def intro!: le_res_rbind remove_abs_mono)

lemma mul_inf_step_mono:
  assumes "le_fun lim lim'"
  shows "le_res (mul_inf_step X lim self e z z0) (mul_inf_step X lim' self e z z0)"
proof -
  have body: "le_res
      (rbind (call (as_leading_term X inve u)) (\<lambda>t.
       rbind (call (gammasimp X t)) (\<lambda>f.
       rbind (call (is_meromorphic X f u (Integer 0))) (\<lambda>m.
       if m then
         rbind (lim f u (Integer 0) (PyStr ''+'')) (\<lambda>r.
         if is_Limit r then Return (Returned self) else Return (Returned r))
       else Return (Continue e')))))
      (rbind (call (as_leading_term X inve u)) (\<lambda>t.
       rbind (call (gammasimp X t)) (\<lambda>f.
       rbind (call (is_meromorphic X f u (Integer 0))) (\<lambda>m.
       if m then
         rbind (lim' f u (Integer 0) (PyStr ''+'')) (\<lambda>r.
         if is_Limit r then Return (Returned self) else Return (Returned r))
       else Return (Continue e')))))" for inve u e'
    by (intro le_res_rbind le_res_refl le_res_if le_funD [OF assms])
  have handler: "le_res (case a of Some (Inl x) \<Rightarrow> h x | other \<Rightarrow> other)
                        (case b of Some (Inl x) \<Rightarrow> h x | other \<Rightarrow> other)"
    if "le_res a b" for a b :: "step res" and h
    using that by (auto simp: le_res_def)
  show ?thesis
    unfolding mul_inf_step_def Let_def
    by (intro le_res_if handler body le_res_refl)
qed

lemma order_step_mono:
  assumes "le_fun lim lim'"
  shows "le_res (order_step X lim e z z0) (order_step X lim' e z z0)"
proof (cases e)
  case (Order a ps)
  show ?thesis
    unfolding order_step_def Order expr.case
    by (intro le_res_rbind le_res_refl le_funD [OF assms])
qed (simp_all add: order_step_def)

lemma pow_step_mono:
  assumes "le_fun lim lim'"
  shows "le_res (pow_step X lim self e z z0) (pow_step X lim' self e z z0)"
proof (cases e)
  case (PowE b1 e1)
  show ?thesis
    unfolding pow_step_def PowE Let_def expr.case
    by (intro le_res_if le_res_rbind le_res_refl le_funD [OF assms])
qed (simp_all add: pow_step_def)

lemma fast_paths_mono:
  assumes "le_fun lim lim'"
  shows "le_res (fast_paths X lim self e z z0 dir) (fast_paths X lim' self e z z0 dir)"
  unfolding fast_paths_def upto_order_def upto_mul_def upto_meromorphic_def
  by (intro le_res_andthen trivial_abs_step_mono mul_inf_step_mono order_step_mono
      pow_step_mono le_res_refl assms)

lemma general_fallback_mono:
  assumes "le_fun heur heur'"
  shows "le_res (general_fallback X heur self e z z0 dir)
                (general_fallback X heur' self e z z0 dir)"
proof -
  have h: "le_res (rbind (heur e z z0 (PyExpr dir)) k) (rbind (heur' e z z0 (PyExpr dir)) k)"
    for k :: "expr option \<Rightarrow> expr res"
    by (intro le_res_rbind le_res_refl le_funD [OF assms])
  show ?thesis
    unfolding general_fallback_def Let_def
    by (auto split: sum.splits exn.splits intro: h)
qed

lemma doit_with_mono:
  assumes "le_fun lim lim'" and "le_fun heur heur'"
  shows "le_res (doit_with X lim heur deep self) (doit_with X lim' heur' deep self)"
  unfolding doit_with_def
  by (auto split: list.splits step.splits
      intro!: le_res_rbind fast_paths_mono general_fallback_mono assms)

lemma limit_with_mono:
  assumes "le_fun lim lim'" and "le_fun heur heur'"
  shows "le_fun (limit_with X lim heur) (limit_with X lim' heur')"
  unfolding le_fun_def limit_with_def
  by (auto split: sum.splits intro!: doit_with_mono assms)

lemma heur_loop_mono:
  assumes "le_fun lim lim'" and "le_fun heur heur'"
  shows "le_res (heur_loop X lim heur e z z0 dir as r) (heur_loop X lim' heur' e z z0 dir as r)"
proof (induction as arbitrary: r)
  case Nil
  show ?case by simp
next
  case (Cons a as)
  show ?case
    unfolding heur_loop.simps Let_def
    by (intro le_res_rbind le_res_if le_res_refl Cons le_funD [OF assms(1)] le_funD [OF assms(2)])
qed

lemma heur_combine_mono:
  assumes "le_fun lim lim'"
  shows "le_res (heur_combine X lim e z z0 dir r) (heur_combine X lim' e z z0 dir r)"
proof -
  have rat: "le_res
      (case ratsimp X e of
         Inl x \<Rightarrow> (case x of PolynomialError \<Rightarrow> Return None | _ \<Rightarrow> Raise x)
       | Inr rat_e \<Rightarrow>
           if rat_e = NaN \<or> rat_e = e then Return None
           else rbind (lim rat_e z z0 dir) (\<lambda>v. Return (Some v)))
      (case ratsimp X e of
         Inl x \<Rightarrow> (case x of PolynomialError \<Rightarrow> Return None | _ \<Rightarrow> Raise x)
       | Inr rat_e \<Rightarrow>
           if rat_e = NaN \<or> rat_e = e then Return None
           else rbind (lim' rat_e z z0 dir) (\<lambda>v. Return (Some v)))"
    by (auto split: sum.splits intro!: le_res_rbind le_funD [OF assms])
  show ?thesis
    unfolding heur_combine_def Let_def
    by (intro le_res_if le_res_rbind le_res_refl rat le_funD [OF assms])
qed

lemma heuristics_with_mono:
  assumes "le_fun lim lim'" and "le_fun heur heur'"
  shows "le_fun (heuristics_with X lim heur) (heuristics_with X lim' heur')"
  unfolding le_fun_def heuristics_with_def
  by (auto split: loop_out.splits
      intro!: le_res_rbind heur_loop_mono heur_combine_mono le_funD [OF assms(1)] assms)

lemma run_step:
  "le_fun (fst (run X n)) (fst (run X (Suc n))) \<and> le_fun (snd (run X n)) (snd (run X (Suc n)))"
proof (induction n)
  case 0
  show ?case by (simp add: le_fun_def)
next
  case (Suc n)
  then show ?case
    using limit_with_mono [of "fst (run X n)" "fst (run X (Suc n))"
        "snd (run X n)" "snd (run X (Suc n))" X]
      heuristics_with_mono [of "fst (run X n)" "fst (run X (Suc n))"
        "snd (run X n)" "snd (run X (Suc n))" X]
    by simp
qed

lemma le_fun_trans: "le_fun f g \<Longrightarrow> le_fun g h \<Longrightarrow> le_fun f h"
  unfolding le_fun_def le_res_def by metis

lemma run_mono:
  "n \<le> m \<Longrightarrow> le_fun (fst (run X n)) (fst (run X m)) \<and> le_fun (snd (run X n)) (snd (run X m))"
proof (induction m)
  case 0
  then show ?case by (simp add: le_fun_def)
next
  case (Suc m)
  show ?case
  proof (cases "n = Suc m")
    case True
    then show ?thesis by (simp add: le_fun_def)
  next
    case False
    with Suc have "le_fun (fst (run X n)) (fst (run X m)) \<and> le_fun (snd (run X n)) (snd (run X m))"
      by simp
    with run_step [of X m] show ?thesis
      by (blast intro: le_fun_trans)
  qed
qed

theorem more_fuel_same_result:
  assumes "n \<le> m"
  shows "limit X n e z z0 dir = Some r \<Longrightarrow> limit X m e z z0 dir = Some r"
    and "heuristics X n e z z0 dir = Some h \<Longrightarrow> heuristics X m e z z0 dir = Some h"
    and "doit X n deep self = Some r \<Longrightarrow> doit X m deep self = Some r"
proof -
  from run_mono [OF assms, of X]
  have l: "le_fun (limit X n) (limit X m)" and h: "le_fun (heuristics X n) (heuristics X m)"
    by (simp_all add: limit_def heuristics_def)
  show "limit X m e z z0 dir = Some r" if "limit X n e z z0 dir = Some r"
    using that le_funD [OF l, of e z z0 dir] by (simp add: le_res_def)
  show "heuristics X m e z z0 dir = Some h" if "heuristics X n e z z0 dir = Some h"
    using that le_funD [OF h, of e z z0 dir] by (simp add: le_res_def)
  show "doit X m deep self = Some r" if "doit X n deep self = Some r"
    using that doit_with_mono [OF l h, of X deep self] by (simp add: doit_def le_res_def)
qed

section \<open>Construction of the node\<close>

text \<open>
  Claim C8. Every node that \<^verbatim>\<open>Limit.__new__\<close> builds stores a direction symbol named
  \<open>+\<close>, \<open>-\<close> or \<open>+-\<close>; when the point is positive infinity the stored direction is \<open>-\<close> and
  when it is negative infinity it is \<open>+\<close>, whatever direction argument was supplied (then
  the construction always succeeds). The same holds for a node rebuilt from new arguments
  by \<^verbatim>\<open>expr.func(*newargs)\<close>, the only other place of the file where a node is built.
\<close>

theorem Limit_new_direction_invariant:
  "(Limit_new X e z z0 dir = Inr node \<longrightarrow>
      (\<exists>d. node = Limit e z z0 (Symbol d) \<and> d \<in> {''+'', ''-'', ''+-''}
           \<and> (z0 = Infinity \<longrightarrow> d = ''-'') \<and> (z0 = NegativeInfinity \<longrightarrow> d = ''+'')))
   \<and> Limit_new X e z Infinity dir = Inr (Limit e z Infinity (Symbol ''-''))
   \<and> Limit_new X e z NegativeInfinity dir = Inr (Limit e z NegativeInfinity (Symbol ''+''))
   \<and> (rebuild X (Limit a b c d') [e, z, z0, dd] = Inr node \<longrightarrow>
      (\<exists>d. node = Limit e z z0 (Symbol d) \<and> d \<in> {''+'', ''-'', ''+-''}
           \<and> (z0 = Infinity \<longrightarrow> d = ''-'') \<and> (z0 = NegativeInfinity \<longrightarrow> d = ''+'')))"
proof -
  have inv: "\<exists>d. node = Limit e z z0 (Symbol d) \<and> d \<in> {''+'', ''-'', ''+-''}
           \<and> (z0 = Infinity \<longrightarrow> d = ''-'') \<and> (z0 = NegativeInfinity \<longrightarrow> d = ''+'')"
    if "Limit_new X e z z0 dir = Inr node" for dir node
    using that Limit_new_node [OF that] Limit_new_forced [of X e z dir] by auto
  show ?thesis
    using inv by (auto simp: Limit_new_forced rebuild_def)
qed

theorem Limit_new_direction_invariant_witness:
  "Limit_new sample_ext (Symbol ''x'') (Symbol ''x'') Infinity (PyStr ''+'')
     = Inr (Limit (Symbol ''x'') (Symbol ''x'') Infinity (Symbol ''-''))
   \<and> (\<exists>d. Limit (Symbol ''x'') (Symbol ''x'') Infinity (Symbol ''-'')
            = Limit (Symbol ''x'') (Symbol ''x'') Infinity (Symbol d)
          \<and> d \<in> {''+'', ''-'', ''+-''} \<and> d = ''-'')"
  using Limit_new_direction_invariant
    [of sample_ext "Symbol ''x''" "Symbol ''x''" Infinity "PyStr ''+''"
        "Limit (Symbol ''x'') (Symbol ''x'') Infinity (Symbol ''-'')"]
  by (simp add: Limit_new_def str_def)

text \<open>
  Claim C9. A direction string other than \<open>+\<close>, \<open>-\<close>, \<open>+-\<close> makes the construction raise
  the \<^verbatim>\<open>ValueError\<close> when the point is neither positive nor negative infinity; the entry
  function \<^verbatim>\<open>limit\<close> then raises the same error whatever the evaluator and the
  collaborators would do (\<open>lim\<close> and \<open>heur\<close> are arbitrary), so no evaluation step has
  been taken. At positive or negative infinity the direction is forced first and the
  invalid string is ignored.
\<close>

theorem invalid_direction_string_fails_at_construction:
  assumes "s \<notin> {''+'', ''-'', ''+-''}"
  shows "(z0 \<noteq> Infinity \<and> z0 \<noteq> NegativeInfinity \<longrightarrow>
            Limit_new X e z z0 (PyStr s) = Inl (ValueError (invalid_direction_msg s))
          \<and> limit_with X lim heur e z z0 (PyStr s) = Raise (ValueError (invalid_direction_msg s))
          \<and> limit X (Suc n) e z z0 (PyStr s) = Raise (ValueError (invalid_direction_msg s)))
       \<and> Limit_new X e z Infinity (PyStr s) = Inr (Limit e z Infinity (Symbol ''-''))
       \<and> Limit_new X e z NegativeInfinity (PyStr s)
           = Inr (Limit e z NegativeInfinity (Symbol ''+''))"
  using assms
  by (simp add: Limit_new_str Limit_new_forced limit_with_def limit_Suc invalid_direction_msg_def)

theorem invalid_direction_string_witness:
  "''up'' \<notin> {''+'', ''-'', ''+-''}
   \<and> Limit_new sample_ext (Symbol ''x'') (Symbol ''x'') (Integer 0) (PyStr ''up'')
       = Inl (ValueError ''direction must be one of '+', '-' or '+-', not up'')
   \<and> limit sample_ext (Suc 0) (Symbol ''x'') (Symbol ''x'') (Integer 0) (PyStr ''up'')
       = Raise (ValueError ''direction must be one of '+', '-' or '+-', not up'')
   \<and> Limit_new sample_ext (Symbol ''x'') (Symbol ''x'') Infinity (PyStr ''up'')
       = Inr (Limit (Symbol ''x'') (Symbol ''x'') Infinity (Symbol ''-''))"
  using invalid_direction_string_fails_at_construction
    [of "''up''" "Integer 0" sample_ext "Symbol ''x''" "Symbol ''x''"
        "limit sample_ext 0" "heuristics sample_ext 0" 0]
  by (simp add: invalid_direction_msg_def)

text \<open>
  Claim C10, as stated, fails at an infinite point: there the direction argument is
  replaced before its type is looked at, so an object that is neither a string nor a
  symbol is accepted.
\<close>

theorem direction_of_other_type_accepted_at_infinity:
  "Limit_new sample_ext (Symbol ''x'') (Symbol ''x'') Infinity (PyObj ''<class 'int'>'')
     = Inr (Limit (Symbol ''x'') (Symbol ''x'') Infinity (Symbol ''-''))"
  by (simp add: Limit_new_def str_def)

text \<open>
  Claim C10, amended. When the point is neither positive nor negative infinity: a
  \<^verbatim>\<open>Symbol\<close> given as direction is treated exactly as the string of its name, accepted
  when the name is \<open>+\<close>, \<open>-\<close> or \<open>+-\<close> and refused with the \<^verbatim>\<open>ValueError\<close> otherwise; a
  direction that is neither a string nor a \<^verbatim>\<open>Symbol\<close> raises the \<^verbatim>\<open>TypeError\<close>. When the
  point is positive or negative infinity the argument is not inspected at all.
\<close>

theorem direction_argument_types:
  "(z0 \<noteq> Infinity \<and> z0 \<noteq> NegativeInfinity \<longrightarrow>
      Limit_new X e z z0 (PyExpr (Symbol s)) = Limit_new X e z z0 (PyStr s)
    \<and> (s \<in> {''+'', ''-'', ''+-''} \<longrightarrow>
         Limit_new X e z z0 (PyExpr (Symbol s)) = Inr (Limit e z z0 (Symbol s)))
    \<and> (s \<notin> {''+'', ''-'', ''+-''} \<longrightarrow>
         Limit_new X e z z0 (PyExpr (Symbol s)) = Inl (ValueError (invalid_direction_msg s)))
    \<and> ((\<forall>t. dir \<noteq> PyStr t \<and> dir \<noteq> PyExpr (Symbol t)) \<longrightarrow>
         Limit_new X e z z0 dir
           = Inl (TypeError (''direction must be of type basestring or Symbol, not ''
                              @ type_str X dir))))
   \<and> Limit_new X e z Infinity dir = Inr (Limit e z Infinity (Symbol ''-''))
   \<and> Limit_new X e z NegativeInfinity dir = Inr (Limit e z NegativeInfinity (Symbol ''+''))"
proof -
  have other: "Limit_new X e z z0 dir
           = Inl (TypeError (''direction must be of type basestring or Symbol, not ''
                              @ type_str X dir))"
    if "z0 \<noteq> Infinity" "z0 \<noteq> NegativeInfinity"
      and "\<forall>t. dir \<noteq> PyStr t \<and> dir \<noteq> PyExpr (Symbol t)"
    using that by (simp add: Limit_new_def split: pyval.splits expr.splits)
  show ?thesis
    using other
    by (simp add: Limit_new_Symbol Limit_new_str Limit_new_forced invalid_direction_msg_def)
qed

theorem direction_argument_types_witness:
  "Limit_new sample_ext (Symbol ''x'') (Symbol ''x'') (Integer 0) (PyExpr (Symbol ''+-''))
     = Inr (Limit (Symbol ''x'') (Symbol ''x'') (Integer 0) (Symbol ''+-''))
   \<and> Limit_new sample_ext (Symbol ''x'') (Symbol ''x'') (Integer 0) (PyObj ''<class 'int'>'')
     = Inl (TypeError ''direction must be of type basestring or Symbol, not <class 'int'>'')"
proof -
  have t: "type_str sample_ext (PyObj ''<class 'int'>'') = ''<class 'int'>''"
    by (simp add: sample_ext_def)
  show ?thesis
    using direction_argument_types
      [of "Integer 0" sample_ext "Symbol ''x''" "Symbol ''x''" "''+-''"
          "PyObj ''<class 'int'>''"]
    by (simp add: t Limit_new_str)
qed

section \<open>The first steps of the evaluator\<close>

text \<open>
  Claim C4. A node whose point is complex infinity makes \<^verbatim>\<open>doit\<close> raise the
  \<^verbatim>\<open>NotImplementedError\<close>, for every expression (also the variable itself), variable and
  direction, for either value of \<open>deep\<close>, with any amount of fuel and whatever the
  recursive calls and the collaborators would do: nothing is evaluated before, and no
  handler is around the \<^verbatim>\<open>raise\<close>. Through the entry function the same error comes out
  for every direction argument with which the node can be constructed.
\<close>

theorem complex_infinity_unsupported:
  "doit_with X lim heur deep (Limit e z ComplexInfinity d)
     = Raise (NotImplementedError unsupported_msg)
   \<and> doit X n deep (Limit e z ComplexInfinity d)
     = Raise (NotImplementedError unsupported_msg)
   \<and> (Limit_new X e z ComplexInfinity dir = Inr node \<longrightarrow>
        limit X (Suc n) e z ComplexInfinity dir
          = Raise (NotImplementedError unsupported_msg))"
proof -
  have "limit X (Suc n) e z ComplexInfinity dir = Raise (NotImplementedError unsupported_msg)"
    if "Limit_new X e z ComplexInfinity dir = Inr node"
    using that Limit_new_node [OF that] by (auto simp: limit_Suc doit_def doit_complex_infinity)
  then show ?thesis
    by (simp add: doit_def doit_complex_infinity)
qed

theorem complex_infinity_unsupported_witness:
  "Limit_new sample_ext (Symbol ''x'') (Symbol ''x'') ComplexInfinity (PyStr ''+'')
     = Inr (Limit (Symbol ''x'') (Symbol ''x'') ComplexInfinity (Symbol ''+''))
   \<and> limit sample_ext (Suc 0) (Symbol ''x'') (Symbol ''x'') ComplexInfinity (PyStr ''+'')
     = Raise (NotImplementedError ''Limits at complex infinity are not implemented'')"
  using complex_infinity_unsupported
    [of sample_ext "limit sample_ext 0" "heuristics sample_ext 0" False
        "Symbol ''x''" "Symbol ''x''" "Symbol ''+''" 0 "PyStr ''+''"
        "Limit (Symbol ''x'') (Symbol ''x'') ComplexInfinity (Symbol ''+'')"]
  by (simp add: Limit_new_def str_def unsupported_msg_def)

text \<open>
  Claim C5. For a point other than complex infinity, evaluating the node on its
  arguments as given (\<^verbatim>\<open>deep=False\<close>, which is how the entry function evaluates) returns
  the point when the expression is the variable, and the expression itself when the
  variable does not occur in it, for every stored direction and any amount of fuel; the
  entry function returns the same for every direction argument with which the node can
  be constructed. (With \<^verbatim>\<open>deep=True\<close> the same two tests are made on the normalised
  arguments, see \<open>doit_trivial\<close>.)
\<close>

theorem trivial_limits:
  assumes "z0 \<noteq> ComplexInfinity"
  shows "doit X n False (Limit z z z0 d) = Return z0
       \<and> (\<not> has e [z] \<longrightarrow> doit X n False (Limit e z z0 d) = Return e)
       \<and> (Limit_new X z z z0 dir = Inr node \<longrightarrow> limit X (Suc n) z z z0 dir = Return z0)
       \<and> (\<not> has e [z] \<and> Limit_new X e z z0 dir = Inr node \<longrightarrow>
            limit X (Suc n) e z z0 dir = Return e)"
proof -
  have ds: "deep_step X False e' z z0 = Return (e', z, z0)" for e'
    by (simp add: deep_step_def)
  have a: "doit X n False (Limit z z z0 d) = Return z0" for d
    using doit_trivial(1) [OF assms ds] by (simp add: doit_def)
  have b: "doit X n False (Limit e z z0 d) = Return e" if "\<not> has e [z]" for d
    using doit_trivial(2) [OF assms ds that] by (simp add: doit_def)
  have c: "limit X (Suc n) z z z0 dir = Return z0"
    if "Limit_new X z z z0 dir = Inr node"
    using that Limit_new_node [OF that] by (auto simp: limit_Suc a)
  have d: "limit X (Suc n) e z z0 dir = Return e"
    if "\<not> has e [z]" "Limit_new X e z z0 dir = Inr node"
    using that(1) that(2) Limit_new_node [OF that(2)] by (auto simp: limit_Suc b)
  show ?thesis using a b c d by blast
qed

theorem trivial_limits_witness:
  "Integer 2 \<noteq> ComplexInfinity
   \<and> \<not> has (Function ''f'' [Symbol ''y'']) [Symbol ''x'']
   \<and> limit sample_ext (Suc 0) (Symbol ''x'') (Symbol ''x'') (Integer 2) (PyStr ''+-'')
       = Return (Integer 2)
   \<and> limit sample_ext (Suc 0) (Function ''f'' [Symbol ''y'']) (Symbol ''x'') (Integer 2)
         (PyStr ''-'')
       = Return (Function ''f'' [Symbol ''y''])"
proof -
  have h: "Integer 2 \<noteq> ComplexInfinity"
    by simp
  have n: "\<not> has (Function ''f'' [Symbol ''y'']) [Symbol ''x'']"
    by (simp add: has_def)
  have c1: "Limit_new sample_ext (Symbol ''x'') (Symbol ''x'') (Integer 2) (PyStr ''+-'')
              = Inr (Limit (Symbol ''x'') (Symbol ''x'') (Integer 2) (Symbol ''+-''))"
    by (simp add: Limit_new_def str_def)
  have c2: "Limit_new sample_ext (Function ''f'' [Symbol ''y'']) (Symbol ''x'') (Integer 2)
              (PyStr ''-'')
              = Inr (Limit (Function ''f'' [Symbol ''y'']) (Symbol ''x'') (Integer 2)
                       (Symbol ''-''))"
    by (simp add: Limit_new_def str_def)
  from trivial_limits [OF h, of sample_ext 0 "Symbol ''x''" "Symbol ''+-''"
      "Function ''f'' [Symbol ''y'']" "PyStr ''+-''"
      "Limit (Symbol ''x'') (Symbol ''x'') (Integer 2) (Symbol ''+-'')"] c1
  have r1: "limit sample_ext (Suc 0) (Symbol ''x'') (Symbol ''x'') (Integer 2) (PyStr ''+-'')
       = Return (Integer 2)"
    by blast
  from trivial_limits [OF h, of sample_ext 0 "Symbol ''x''" "Symbol ''-''"
      "Function ''f'' [Symbol ''y'']" "PyStr ''-''"
      "Limit (Function ''f'' [Symbol ''y'']) (Symbol ''x'') (Integer 2) (Symbol ''-'')"] n c2
  have r2: "limit sample_ext (Suc 0) (Function ''f'' [Symbol ''y'']) (Symbol ''x'')
       (Integer 2) (PyStr ''-'') = Return (Function ''f'' [Symbol ''y''])"
    by blast
  show ?thesis using h n r1 r2 by blast
qed

section \<open>The fast paths\<close>

text \<open>The equations that run the model on a concrete request.\<close>

lemmas run_defs =
  doit_def doit_with_def deep_step_def fast_paths_def upto_order_def upto_mul_def
  upto_meromorphic_def trivial_abs_step_def meromorphic_step_def rewrite_step_def
  mul_inf_step_def order_step_def pow_step_def general_fallback_def heuristics_with_def
  heur_combine_def limit_Suc limit_0 heuristics_Suc heuristics_0 Limit_new_def str_def
  gt_zero_def lt_zero_def truth_def is_True_def to_int_def cdir_of_def has_def rebuild_def
  nonexistence_msg_def remove_abs.simps sample_ext_def

lemma and_one_even: "((k::int) AND 1 = 0) = even k"
  by (simp add: and_one_eq mod2_eq_if)

text \<open>
  Claim C2. Let the expression, after the resolution of absolute values, be meromorphic
  at the point, and let the leading term of its shifted form (\<open>z + point\<close> for \<open>z\<close> at a
  finite point, \<open>-1/z\<close> for \<open>z\<close> at a point of infinite magnitude) be \<open>(coeff, ex)\<close> with an
  integer exponent \<open>ex = k\<close>. Then \<^verbatim>\<open>doit\<close> returns \<open>0\<close> when \<open>k > 0\<close> and \<open>coeff\<close> when
  \<open>k = 0\<close>; when \<open>k < 0\<close> it returns \<open>oo*sign(coeff)\<close> if the direction is \<open>+\<close> or \<open>k\<close> is
  even, \<open>-oo*sign(coeff)\<close> if the direction is \<open>-\<close> and \<open>k\<close> is odd, and complex infinity
  if the direction is \<open>+-\<close> and \<open>k\<close> is odd. The expression is not the variable and
  contains it, since the two trivial cases are answered before. \<open>doit X n\<close> is the
  instance \<open>lim = limit X n\<close>, \<open>heur = heuristics X n\<close>.
\<close>

theorem meromorphic_leading_term:
  assumes "z0 \<noteq> ComplexInfinity"
    and "deep_step X deep e z z0 = Return (e1, z1, z01)"
    and "e1 \<noteq> z1" and "has e1 [z1]"
    and "remove_abs X lim z1 z01 (Symbol d) e1 = Return e2"
    and "is_meromorphic X e2 z1 z01 = Inr True"
    and "leadterm X (if Abs_eval X z01 = Infinity
                     then subs X e2 z1 (truediv X (Integer (- 1)) z1)
                     else subs X e2 z1 (add X z1 z01)) z1 (cdir_of X (Symbol d))
           = Inr (coeff, Integer k)"
  shows "(0 < k \<longrightarrow> doit_with X lim heur deep (Limit e z z0 (Symbol d)) = Return (Integer 0))
       \<and> (k = 0 \<longrightarrow> doit_with X lim heur deep (Limit e z z0 (Symbol d)) = Return coeff)
       \<and> (k < 0 \<and> (d = ''+'' \<or> even k) \<longrightarrow>
            doit_with X lim heur deep (Limit e z z0 (Symbol d))
              = Return (mul X Infinity (sign X coeff)))
       \<and> (k < 0 \<and> d = ''-'' \<and> odd k \<longrightarrow>
            doit_with X lim heur deep (Limit e z z0 (Symbol d))
              = Return (mul X NegativeInfinity (sign X coeff)))
       \<and> (k < 0 \<and> d = ''+-'' \<and> odd k \<longrightarrow>
            doit_with X lim heur deep (Limit e z z0 (Symbol d)) = Return ComplexInfinity)"
proof -
  have step: "meromorphic_step X e2 z1 z01 (Symbol d)
      = Return (Returned
          (if 0 < k then Integer 0
           else if k = 0 then coeff
           else if d = ''+'' \<or> even k then mul X Infinity (sign X coeff)
           else if d = ''-'' then mul X NegativeInfinity (sign X coeff)
           else ComplexInfinity))"
    using assms(6) assms(7)
    by (simp add: meromorphic_step_def gt_zero_def truth_def to_int_def str_def and_one_even)
  have "fast_paths X lim (Limit e z z0 (Symbol d)) e1 z1 z01 (Symbol d)
      = Return (Returned
          (if 0 < k then Integer 0
           else if k = 0 then coeff
           else if d = ''+'' \<or> even k then mul X Infinity (sign X coeff)
           else if d = ''-'' then mul X NegativeInfinity (sign X coeff)
           else ComplexInfinity))"
    using assms(3) assms(4) assms(5) step
    by (simp add: fast_paths_def upto_order_def upto_mul_def upto_meromorphic_def
        trivial_abs_step_def)
  then have "doit_with X lim heur deep (Limit e z z0 (Symbol d))
      = Return (if 0 < k then Integer 0
           else if k = 0 then coeff
           else if d = ''+'' \<or> even k then mul X Infinity (sign X coeff)
           else if d = ''-'' then mul X NegativeInfinity (sign X coeff)
           else ComplexInfinity)"
    using assms(1) assms(2) by (simp add: doit_with_def)
  then show ?thesis
    by auto
qed

theorem meromorphic_leading_term_witness:
  "doit sample_ext 0 False
     (Limit (PowE (Symbol ''x'') (Integer 2)) (Symbol ''x'') (Integer 0) (Symbol ''+''))
     = Return (Integer 0)
   \<and> doit sample_ext 0 False
     (Limit (Add [Integer 3, Symbol ''x'']) (Symbol ''x'') (Integer 0) (Symbol ''+''))
     = Return (Integer 3)
   \<and> doit sample_ext 0 False
     (Limit (PowE (Symbol ''x'') (Integer (- 2))) (Symbol ''x'') (Integer 0) (Symbol ''-''))
     = Return Infinity
   \<and> doit sample_ext 0 False
     (Limit (PowE (Symbol ''x'') (Integer (- 1))) (Symbol ''x'') (Integer 0) (Symbol ''-''))
     = Return NegativeInfinity
   \<and> doit sample_ext 0 False
     (Limit (PowE (Symbol ''x'') (Integer (- 1))) (Symbol ''x'') (Integer 0) (Symbol ''+-''))
     = Return ComplexInfinity"
proof -
  let ?x = "Symbol ''x''"
  let ?lim = "limit sample_ext 0"
  let ?heur = "heuristics sample_ext 0"
  have z: "Integer 0 \<noteq> ComplexInfinity"
    by simp
  have ds: "deep_step sample_ext False a ?x (Integer 0) = Return (a, ?x, Integer 0)" for a
    by (simp add: deep_step_def)
  have ne: "PowE ?x (Integer k) \<noteq> ?x" "Add [Integer 3, ?x] \<noteq> ?x" for k
    by simp_all
  have occ: "has (PowE ?x (Integer k)) [?x]" "has (Add [Integer 3, ?x]) [?x]" for k
    by (simp_all add: has_def)
  have ra: "remove_abs sample_ext ?lim ?x (Integer 0) (Symbol d) (PowE ?x (Integer k))
              = Return (PowE ?x (Integer k))"
    "remove_abs sample_ext ?lim ?x (Integer 0) (Symbol d) (Add [Integer 3, ?x])
              = Return (Add [Integer 3, ?x])" for d k
    by (simp_all add: remove_abs.simps)
  have mero: "is_meromorphic sample_ext (PowE ?x (Integer k)) ?x (Integer 0) = Inr True"
    "is_meromorphic sample_ext (Add [Integer 3, ?x]) ?x (Integer 0) = Inr True" for k
    by (simp_all add: sample_ext_def)
  have lt: "leadterm sample_ext
              (if Abs_eval sample_ext (Integer 0) = Infinity
               then subs sample_ext (PowE ?x (Integer k)) ?x (truediv sample_ext (Integer (- 1)) ?x)
               else subs sample_ext (PowE ?x (Integer k)) ?x (add sample_ext ?x (Integer 0)))
              ?x (cdir_of sample_ext (Symbol d)) = Inr (Integer 1, Integer k)"
    "leadterm sample_ext
              (if Abs_eval sample_ext (Integer 0) = Infinity
               then subs sample_ext (Add [Integer 3, ?x]) ?x (truediv sample_ext (Integer (- 1)) ?x)
               else subs sample_ext (Add [Integer 3, ?x]) ?x (add sample_ext ?x (Integer 0)))
              ?x (cdir_of sample_ext (Symbol d)) = Inr (Integer 3, Integer 0)" for d k
    by (simp_all add: sample_ext_def)
  have ms: "mul sample_ext Infinity (sign sample_ext (Integer 1)) = Infinity"
    "mul sample_ext NegativeInfinity (sign sample_ext (Integer 1)) = NegativeInfinity"
    by (simp_all add: sample_ext_def)
  note tab = meromorphic_leading_term [OF z ds ne(1) occ(1) ra(1) mero(1) lt(1),
      where heur = ?heur]
  have a: "doit sample_ext 0 False (Limit (PowE ?x (Integer 2)) ?x (Integer 0) (Symbol ''+''))
     = Return (Integer 0)"
    using tab [of 2 "''+''"] by (simp add: doit_def)
  have b: "doit sample_ext 0 False (Limit (Add [Integer 3, ?x]) ?x (Integer 0) (Symbol ''+''))
     = Return (Integer 3)"
    using meromorphic_leading_term [OF z ds ne(2) occ(2) ra(2) mero(2) lt(2), where heur = ?heur,
        of "''+''"]
    by (simp add: doit_def)
  have c: "doit sample_ext 0 False
     (Limit (PowE ?x (Integer (- 2))) ?x (Integer 0) (Symbol ''-'')) = Return Infinity"
    using tab [of "- 2" "''-''"] by (simp add: doit_def ms)
  have d: "doit sample_ext 0 False
     (Limit (PowE ?x (Integer (- 1))) ?x (Integer 0) (Symbol ''-'')) = Return NegativeInfinity"
    using tab [of "- 1" "''-''"] by (simp add: doit_def ms)
  have e: "doit sample_ext 0 False
     (Limit (PowE ?x (Integer (- 1))) ?x (Integer 0) (Symbol ''+-'')) = Return ComplexInfinity"
    using tab [of "- 1" "''+-''"] by (simp add: doit_def ms)
  show ?thesis using a b c d e by simp
qed

text \<open>
  Claim C6. Let the power fast path be entered with \<open>b1 ** x1\<close>, free of infinities and
  not-a-number, for which \<open>x1*log(b1)\<close> is not meromorphic at the point, and let the limit
  of the base, computed on its own, be exactly \<open>1\<close>. If the limit of the exponent is
  positive or negative infinity, \<^verbatim>\<open>doit\<close> computes the limit of \<open>x1*(b1 - 1)\<close> and returns
  its exponential (and fails or does not return as that limit does); if the limit of the
  exponent is real (hence finite), \<^verbatim>\<open>doit\<close> returns \<open>1\<close>.
\<close>

theorem power_with_base_limit_one:
  assumes "z0 \<noteq> ComplexInfinity"
    and "deep_step X deep e z z0 = Return (e', z', z0')"
    and "upto_order X lim (Limit e z z0 dir) e' z' z0' dir = Return (Continue (PowE b1 x1))"
    and "\<not> has (PowE b1 x1) [Infinity, NegativeInfinity, ComplexInfinity, NaN]"
    and "is_meromorphic X (mul X x1 (log X b1)) z' z0' = Inr False"
    and "lim x1 z' z0' (PyStr ''+'') = Return ex_lim"
    and "lim b1 z' z0' (PyStr ''+'') = Return (Integer 1)"
  shows "(ex_lim = Infinity \<or> ex_lim = NegativeInfinity \<longrightarrow>
            doit_with X lim heur deep (Limit e z z0 dir)
              = rbind (lim (mul X x1 (sub X b1 (Integer 1))) z' z0' (PyStr ''+''))
                  (\<lambda>res. Return (exp X res)))
       \<and> (ex_lim \<noteq> Infinity \<and> ex_lim \<noteq> NegativeInfinity \<and> is_real X ex_lim = Some True \<longrightarrow>
            doit_with X lim heur deep (Limit e z z0 dir) = Return (Integer 1))"
proof -
  let ?self = "Limit e z z0 dir"
  let ?res = "lim (mul X x1 (sub X b1 (Integer 1))) z' z0' (PyStr ''+'')"
  have fp: "fast_paths X lim ?self e' z' z0' dir = pow_step X lim ?self (PowE b1 x1) z' z0'"
    using assms(3) by (simp add: fast_paths_def)
  have inf: "pow_step X lim ?self (PowE b1 x1) z' z0'
               = rbind ?res (\<lambda>res. Return (Returned (exp X res)))"
    if "ex_lim = Infinity \<or> ex_lim = NegativeInfinity"
    using that assms(4) assms(5) assms(6) assms(7) by (auto simp: pow_step_def)
  have fin: "pow_step X lim ?self (PowE b1 x1) z' z0' = Return (Returned (Integer 1))"
    if "ex_lim \<noteq> Infinity" "ex_lim \<noteq> NegativeInfinity" "is_real X ex_lim = Some True"
    using that assms(4) assms(5) assms(6) assms(7) by (simp add: pow_step_def)
  have d: "doit_with X lim heur deep ?self
             = rbind (fast_paths X lim ?self e' z' z0' dir) (\<lambda>s.
                 case s of Returned v \<Rightarrow> Return v
                 | Continue e \<Rightarrow> general_fallback X heur ?self e z' z0' dir)"
    using assms(1) assms(2) by (simp add: doit_with_def)
  have a: "doit_with X lim heur deep ?self = rbind ?res (\<lambda>res. Return (exp X res))"
    if "ex_lim = Infinity \<or> ex_lim = NegativeInfinity"
    unfolding d fp inf [OF that] by (cases ?res) (auto simp: rbind_def split: sum.splits)
  have b: "doit_with X lim heur deep ?self = Return (Integer 1)"
    if "ex_lim \<noteq> Infinity" "ex_lim \<noteq> NegativeInfinity" "is_real X ex_lim = Some True"
    unfolding d fp fin [OF that] by simp
  show ?thesis using a b by blast
qed

theorem power_with_base_limit_one_witness:
  "doit sample_ext (Suc 0) False
     (Limit (PowE (Symbol ''x'') (Symbol ''x'')) (Symbol ''x'') (Integer 1) (Symbol ''+''))
     = Return (Integer 1)
   \<and> doit sample_ext (Suc 0) False
     (Limit (PowE (Add [Integer 1, Symbol ''x'']) (PowE (Symbol ''x'') (Integer (- 1))))
        (Symbol ''x'') (Integer 0) (Symbol ''+''))
     = rbind (limit sample_ext (Suc 0)
               (Mul [PowE (Symbol ''x'') (Integer (- 1)),
                     Add [Add [Integer 1, Symbol ''x''], Mul [Integer (- 1), Integer 1]]])
               (Symbol ''x'') (Integer 0) (PyStr ''+''))
         (\<lambda>res. Return (exp sample_ext res))"
proof -
  let ?x = "Symbol ''x''"
  let ?lim = "limit sample_ext (Suc 0)"
  let ?heur = "heuristics sample_ext (Suc 0)"
  let ?e1 = "PowE ?x ?x"
  let ?e2 = "PowE (Add [Integer 1, ?x]) (PowE ?x (Integer (- 1)))"
  have z: "Integer 1 \<noteq> ComplexInfinity" "Integer 0 \<noteq> ComplexInfinity"
    by simp_all
  have ds: "deep_step sample_ext False a ?x p = Return (a, ?x, p)" for a p
    by (simp add: deep_step_def)
  have u1: "upto_order sample_ext ?lim (Limit ?e1 ?x (Integer 1) (Symbol ''+'')) ?e1 ?x
              (Integer 1) (Symbol ''+'') = Return (Continue ?e1)"
    by (simp add: run_defs)
  have u2: "upto_order sample_ext ?lim (Limit ?e2 ?x (Integer 0) (Symbol ''+'')) ?e2 ?x
              (Integer 0) (Symbol ''+'') = Return (Continue ?e2)"
    by (simp add: run_defs)
  have h: "\<not> has ?e1 [Infinity, NegativeInfinity, ComplexInfinity, NaN]"
    "\<not> has ?e2 [Infinity, NegativeInfinity, ComplexInfinity, NaN]"
    by (simp_all add: has_def)
  have m: "is_meromorphic sample_ext (mul sample_ext ?x (log sample_ext ?x)) ?x (Integer 1)
             = Inr False"
    "is_meromorphic sample_ext
       (mul sample_ext (PowE ?x (Integer (- 1))) (log sample_ext (Add [Integer 1, ?x])))
       ?x (Integer 0) = Inr False"
    by (simp_all add: sample_ext_def)
  have l1: "?lim ?x ?x (Integer 1) (PyStr ''+'') = Return (Integer 1)"
    by (simp add: run_defs)
  have l2: "?lim (PowE ?x (Integer (- 1))) ?x (Integer 0) (PyStr ''+'') = Return Infinity"
    by (simp add: run_defs)
  have l3: "?lim (Add [Integer 1, ?x]) ?x (Integer 0) (PyStr ''+'') = Return (Integer 1)"
    by (simp add: run_defs)
  have r: "is_real sample_ext (Integer 1) = Some True"
    by (simp add: sample_ext_def)
  have ms: "mul sample_ext (PowE ?x (Integer (- 1)))
              (sub sample_ext (Add [Integer 1, ?x]) (Integer 1))
            = Mul [PowE ?x (Integer (- 1)),
                   Add [Add [Integer 1, ?x], Mul [Integer (- 1), Integer 1]]]"
    by (simp add: sample_ext_def)
  have a: "doit sample_ext (Suc 0) False (Limit ?e1 ?x (Integer 1) (Symbol ''+''))
             = Return (Integer 1)"
    using power_with_base_limit_one [OF z(1) ds u1 h(1) m(1) l1 l1, where heur = ?heur] r
    by (simp add: doit_def)
  have b: "doit sample_ext (Suc 0) False (Limit ?e2 ?x (Integer 0) (Symbol ''+''))
             = rbind (?lim (Mul [PowE ?x (Integer (- 1)),
                     Add [Add [Integer 1, ?x], Mul [Integer (- 1), Integer 1]]])
                       ?x (Integer 0) (PyStr ''+''))
                 (\<lambda>res. Return (exp sample_ext res))"
    using power_with_base_limit_one [OF z(2) ds u2 h(2) m(2) l2 l3, where heur = ?heur]
    by (simp add: doit_def ms)
  show ?thesis using a b by simp
qed

section \<open>The heuristics at an infinite point\<close>

text \<open>
  Claim C7. When the point has infinite magnitude, \<^verbatim>\<open>heuristics\<close> is determined by one
  call of the entry function, whatever that function is: the call on the expression with
  the variable replaced by \<open>1/z\<close>, at the point \<open>0\<close>, from the direction \<open>+\<close> when the point
  is positive infinity and \<open>-\<close> otherwise (so \<open>-\<close> when it is negative infinity). If that
  call returns an unevaluated \<^verbatim>\<open>Limit\<close> node the heuristics return \<^verbatim>\<open>None\<close>, otherwise its
  value; they never return a \<^verbatim>\<open>Limit\<close> node in this branch.
\<close>

theorem heuristics_at_infinity:
  assumes "Abs_eval X z0 = Infinity"
  shows "heuristics_with X lim heur e z z0 dir
           = rbind (lim (subs X e z (truediv X (Integer 1) z)) z (Integer 0)
                      (PyStr (if z0 = Infinity then ''+'' else ''-'')))
               (\<lambda>rv. if is_Limit rv then Return None else Return (Some rv))
       \<and> heuristics X (Suc n) e z z0 dir
           = rbind (limit X n (subs X e z (truediv X (Integer 1) z)) z (Integer 0)
                      (PyStr (if z0 = Infinity then ''+'' else ''-'')))
               (\<lambda>rv. if is_Limit rv then Return None else Return (Some rv))
       \<and> (\<forall>rv. lim (subs X e z (truediv X (Integer 1) z)) z (Integer 0)
                  (PyStr (if z0 = Infinity then ''+'' else ''-'')) = Return rv \<and> is_Limit rv
              \<longrightarrow> heuristics_with X lim heur e z z0 dir = Return None)
       \<and> (\<forall>v. heuristics_with X lim heur e z z0 dir = Return (Some v) \<longrightarrow> \<not> is_Limit v)"
proof -
  have eq: "heuristics_with X lim heur e z z0 dir
           = rbind (lim (subs X e z (truediv X (Integer 1) z)) z (Integer 0)
                      (PyStr (if z0 = Infinity then ''+'' else ''-'')))
               (\<lambda>rv. if is_Limit rv then Return None else Return (Some rv))" for lim heur
    using assms by (simp add: heuristics_with_def cong: if_cong)
  have never: "\<not> is_Limit v" if "heuristics_with X lim heur e z z0 dir = Return (Some v)" for v
    using that unfolding eq by (auto simp: rbind_def split: option.splits sum.splits if_splits)
  show ?thesis
    using eq never by (simp add: heuristics_Suc)
qed

theorem heuristics_at_infinity_witness:
  "Abs_eval sample_ext Infinity = Infinity
   \<and> heuristics sample_ext (Suc (Suc 0)) (Symbol ''x'') (Symbol ''x'') Infinity (PyStr ''-'')
       = Return (Some Infinity)
   \<and> limit sample_ext (Suc (Suc 0)) (Other ''Integral'' [PowE (Symbol ''x'') (Integer (- 1))])
        (Symbol ''x'') (Integer 0) (PyStr ''-'')
       = Return (Limit (Other ''Integral'' [PowE (Symbol ''x'') (Integer (- 1))])
                   (Symbol ''x'') (Integer 0) (Symbol ''-''))
   \<and> heuristics sample_ext (Suc (Suc (Suc 0))) (Other ''Integral'' [Symbol ''x''])
        (Symbol ''x'') NegativeInfinity (PyStr ''+'') = Return None"
proof -
  have h: "Abs_eval sample_ext Infinity = Infinity" "Abs_eval sample_ext NegativeInfinity = Infinity"
    by (simp_all add: sample_ext_def)
  have s: "subs sample_ext (Symbol ''x'') (Symbol ''x'')
             (truediv sample_ext (Integer 1) (Symbol ''x'')) = PowE (Symbol ''x'') (Integer (- 1))"
     "subs sample_ext (Other ''Integral'' [Symbol ''x'']) (Symbol ''x'')
             (truediv sample_ext (Integer 1) (Symbol ''x''))
        = Other ''Integral'' [PowE (Symbol ''x'') (Integer (- 1))]"
    by (simp_all add: sample_ext_def)
  have l1: "limit sample_ext (Suc 0) (PowE (Symbol ''x'') (Integer (- 1))) (Symbol ''x'')
              (Integer 0) (PyStr ''+'') = Return Infinity"
    by (simp add: run_defs)
  have l2: "limit sample_ext (Suc (Suc 0)) (Other ''Integral'' [PowE (Symbol ''x'') (Integer (- 1))])
        (Symbol ''x'') (Integer 0) (PyStr ''-'')
       = Return (Limit (Other ''Integral'' [PowE (Symbol ''x'') (Integer (- 1))])
                   (Symbol ''x'') (Integer 0) (Symbol ''-''))"
    by (simp add: run_defs)
  from heuristics_at_infinity [OF h(1), of "limit sample_ext 0" "heuristics sample_ext 0"
      "Symbol ''x''" "Symbol ''x''" "PyStr ''-''" "Suc 0"] s l1
  have r1: "heuristics sample_ext (Suc (Suc 0)) (Symbol ''x'') (Symbol ''x'') Infinity (PyStr ''-'')
       = Return (Some Infinity)"
    by simp
  from heuristics_at_infinity [OF h(2), of "limit sample_ext 0" "heuristics sample_ext 0"
      "Other ''Integral'' [Symbol ''x'']" "Symbol ''x''" "PyStr ''+''" "Suc (Suc 0)"] s l2
  have r2: "heuristics sample_ext (Suc (Suc (Suc 0))) (Other ''Integral'' [Symbol ''x''])
        (Symbol ''x'') NegativeInfinity (PyStr ''+'') = Return None"
    by simp
  show ?thesis using h r1 l2 r2 by simp
qed

section \<open>The general fallback\<close>

lemma doit_fallback:
  assumes "z0 \<noteq> ComplexInfinity"
    and "deep_step X deep e z z0 = Return (e', z', z0')"
    and "fast_paths X lim (Limit e z z0 dir) e' z' z0' dir = Return (Continue e2)"
  shows "doit_with X lim heur deep (Limit e z z0 dir)
           = general_fallback X heur (Limit e z z0 dir) e2 z' z0' dir"
  using assms by (simp add: doit_with_def)

lemma doit_returned:
  assumes "z0 \<noteq> ComplexInfinity"
    and "deep_step X deep e z z0 = Return (e', z', z0')"
    and "fast_paths X lim (Limit e z z0 dir) e' z' z0' dir = Return (Returned v)"
  shows "doit_with X lim heur deep (Limit e z z0 dir) = Return v"
  using assms by (simp add: doit_with_def)

lemma fallback_mismatch:
  assumes "str X dir = ''+-''"
    and "gruntz X e z z0 (PyStr ''+'') = Inr r"
    and "gruntz X e z z0 (PyStr ''-'') = Inr l"
    and "l \<noteq> r"
  shows "general_fallback X heur self e z z0 dir = Raise (ValueError (nonexistence_msg X l r))"
  using assms by (simp add: general_fallback_def)

lemma fallback_both_nan:
  assumes "str X dir = ''+-''"
    and "gruntz X e z z0 (PyStr ''+'') = Inr NaN"
    and "gruntz X e z z0 (PyStr ''-'') = Inr NaN"
  shows "general_fallback X heur self e z z0 dir = Raise PoleError"
  using assms by (simp add: general_fallback_def)

lemma fallback_one_sided:
  assumes "str X dir \<noteq> ''+-''"
    and "gruntz X e z z0 (PyExpr dir) = Inl PoleError
         \<or> gruntz X e z z0 (PyExpr dir) = Inl (ValueError m)
         \<or> gruntz X e z z0 (PyExpr dir) = Inr NaN"
  shows "general_fallback X heur self e z z0 dir = rbind (heur e z z0 (PyExpr dir))
             (\<lambda>r. case r of None \<Rightarrow> Return self | Some v \<Rightarrow> Return v)"
  using assms by (auto simp: general_fallback_def)

lemma fallback_bidirectional_signal:
  assumes "str X dir = ''+-''"
    and "gruntz X e z z0 (PyStr ''+'') = Inl PoleError
         \<or> gruntz X e z z0 (PyStr ''+'') = Inl (ValueError m)
         \<or> (gruntz X e z z0 (PyStr ''+'') = Inr r
            \<and> (gruntz X e z z0 (PyStr ''-'') = Inl PoleError
               \<or> gruntz X e z z0 (PyStr ''-'') = Inl (ValueError m)))"
  shows "general_fallback X heur self e z z0 dir = rbind (heur e z z0 (PyExpr dir))
             (\<lambda>r. case r of None \<Rightarrow> Return self | Some v \<Rightarrow> Return v)"
  using assms by (auto simp: general_fallback_def)

text \<open>
  Claim C1. Let a node with direction \<open>+-\<close> reach the general fallback with the
  expression \<open>e2\<close>, and let the solver return \<open>r\<close> from the right and \<open>l\<close> from the left
  with \<open>l \<noteq> r\<close>. Then \<^verbatim>\<open>doit\<close> raises the \<^verbatim>\<open>ValueError\<close> whose text holds the printed
  forms of \<open>l\<close> and of \<open>r\<close>. This is so for every \<open>heur\<close>: the heuristics have no part in
  the result, and nothing is returned.
\<close>

theorem one_sided_limits_disagree:
  assumes "z0 \<noteq> ComplexInfinity"
    and "deep_step X deep e z z0 = Return (e', z', z0')"
    and "fast_paths X lim (Limit e z z0 (Symbol ''+-'')) e' z' z0' (Symbol ''+-'')
           = Return (Continue e2)"
    and "gruntz X e2 z' z0' (PyStr ''+'') = Inr r"
    and "gruntz X e2 z' z0' (PyStr ''-'') = Inr l"
    and "l \<noteq> r"
  shows "doit_with X lim heur deep (Limit e z z0 (Symbol ''+-''))
           = Raise (ValueError (''The limit does not exist since left hand limit = '' @ str X l
                       @ '' and right hand limit = '' @ str X r))"
proof -
  have "str X (Symbol ''+-'') = ''+-''"
    by (simp add: str_def)
  from fallback_mismatch [OF this assms(4) assms(5) assms(6)]
  show ?thesis
    by (simp add: doit_fallback [OF assms(1) assms(2) assms(3)] nonexistence_msg_def)
qed

lemma sign_fast_paths:
  "fast_paths sample_ext lim (Limit (Function ''sign'' [Symbol ''x'']) (Symbol ''x'') (Integer 0) (Symbol ''+-''))
      (Function ''sign'' [Symbol ''x'']) (Symbol ''x'') (Integer 0) (Symbol ''+-'')
    = Return (Continue (Function ''sign'' [Symbol ''x'']))"
  by (simp add: run_defs)

theorem one_sided_limits_disagree_witness:
  "doit sample_ext 0 False (Limit (Function ''sign'' [Symbol ''x'']) (Symbol ''x'') (Integer 0) (Symbol ''+-''))
    = Raise (ValueError ''The limit does not exist since left hand limit = -1 and right hand limit = 1'')"
proof -
  have 1: "Integer 0 \<noteq> ComplexInfinity" by simp
  have 2: "deep_step sample_ext False (Function ''sign'' [Symbol ''x'']) (Symbol ''x'') (Integer 0)
     = Return (Function ''sign'' [Symbol ''x''], Symbol ''x'', Integer 0)"
    by (simp add: deep_step_def)
  have 4: "gruntz sample_ext (Function ''sign'' [Symbol ''x'']) (Symbol ''x'') (Integer 0) (PyStr ''+'') = Inr (Integer 1)"
    by (simp add: sample_ext_def)
  have 5: "gruntz sample_ext (Function ''sign'' [Symbol ''x'']) (Symbol ''x'') (Integer 0) (PyStr ''-'') = Inr (Integer (- 1))"
    by (simp add: sample_ext_def)
  have 6: "Integer (- 1) \<noteq> Integer 1" by simp
  have s: "str sample_ext (Integer 1) = ''1''" "str sample_ext (Integer (- 1)) = ''-1''"
    by (simp_all add: str_def sample_ext_def)
  from one_sided_limits_disagree [OF 1 2 sign_fast_paths 4 5 6, of "limit sample_ext 0" "heuristics sample_ext 0"]
  show ?thesis
    by (simp add: doit_def s)
qed

text \<open>
  Claim C3 holds on the paths of \<open>fallback_one_sided\<close> and
  \<open>fallback_bidirectional_signal\<close>, and fails on the path of \<open>fallback_both_nan\<close>: for
  the direction \<open>+-\<close>, when the solver returns not-a-number from both sides, the
  \<^verbatim>\<open>PoleError\<close> that \<^verbatim>\<open>doit\<close> raises for it is raised again by the handler, because \<^verbatim>\<open>l\<close>
  is set, and reaches the caller. In the sample environment the solver answers
  not-a-number on \<open>osc(x)\<close>: the request with direction \<open>+-\<close> ends in \<^verbatim>\<open>PoleError\<close>, although
  the heuristics on the same arguments return \<open>osc(0)\<close>, which is what the request with
  direction \<open>+\<close> returns.
\<close>

theorem pole_error_escapes:
  "doit sample_ext (Suc (Suc 0)) False
     (Limit (Function ''osc'' [Symbol ''x'']) (Symbol ''x'') (Integer 0) (Symbol ''+-''))
     = Raise PoleError
   \<and> heuristics sample_ext (Suc (Suc 0)) (Function ''osc'' [Symbol ''x'']) (Symbol ''x'') (Integer 0)
       (PyExpr (Symbol ''+-'')) = Return (Some (Function ''osc'' [Integer 0]))
   \<and> doit sample_ext (Suc (Suc 0)) False
     (Limit (Function ''osc'' [Symbol ''x'']) (Symbol ''x'') (Integer 0) (Symbol ''+''))
     = Return (Function ''osc'' [Integer 0])"
  by (simp add: run_defs)

end
